theory Spec2Isabelle
  imports Complex_Main
begin

text \<open>
  The backend of PostureGuard: the Mongoose models (account, posture measurement,
  settings), the authentication middleware with its per-account rate limiter, and the
  route handlers for login, password change, posture logging, detection and settings.
  Each handler is a function from the request, the clock and the collections it touches
  to its answer and the collections afterwards.
\<close>

section \<open>Common types\<close>

text \<open>
  JavaScript numbers that the handlers only compare with constants are rationals; a
  \<^verbatim>\<open>Date\<close> is its number of milliseconds since the epoch; a Mongo ObjectId is a
  natural number. A handler that answers with \<^verbatim>\<open>res.status(s).json({error, message})\<close>
  returns that triple on the left of a sum. The message of a Joi validation error is
  Joi's own text; the key it complains about stands for it.
\<close>

type_synonym number = rat
type_synonym date = int
type_synonym object_id = nat

record http_error =
  status :: nat
  error :: string
  message :: string

definition validation_error :: "string \<Rightarrow> http_error" where
  "validation_error key = \<lparr>status = 400, error = ''Validation Error'', message = key\<rparr>"

definition server_error :: "string \<Rightarrow> http_error" where
  "server_error msg = \<lparr>status = 500, error = ''Server Error'', message = msg\<rparr>"

definition log_not_found :: http_error where
  "log_not_found =
     \<lparr>status = 404, error = ''Log Not Found'',
      message = ''Posture log not found or unauthorized''\<rparr>"

section \<open>utils/postureUtils.js\<close>

definition getPostureStatus :: "number \<Rightarrow> string" where
  "getPostureStatus score =
     (if score \<ge> 80 then ''good''
      else if score \<ge> 60 then ''warning''
      else if score > 0 then ''bad''
      else ''neutral'')"

definition getPostureDescription :: "number \<Rightarrow> string" where
  "getPostureDescription score =
     (if score \<ge> 90 then ''Excellent Posture''
      else if score \<ge> 80 then ''Good Posture''
      else if score \<ge> 70 then ''Fair Posture''
      else if score \<ge> 60 then ''Slouching Detected''
      else if score \<ge> 40 then ''Poor Posture''
      else if score > 0 then ''Very Poor Posture''
      else ''No Data'')"

record alert_config =
  level :: string
  alert_message :: string
  shouldAlert :: bool
  priority :: string

definition getAlertLevel :: "number \<Rightarrow> alert_config" where
  "getAlertLevel score =
     (if score \<ge> 80 then
        \<lparr>level = ''none'', alert_message = '''', shouldAlert = False, priority = ''low''\<rparr>
      else if score \<ge> 60 then
        \<lparr>level = ''warning'',
         alert_message = ''Consider adjusting your sitting position'',
         shouldAlert = True, priority = ''medium''\<rparr>
      else
        \<lparr>level = ''critical'',
         alert_message = ''Please sit up straight and adjust your posture'',
         shouldAlert = True, priority = ''high''\<rparr>)"

section \<open>models/PostureLog.js\<close>

record measurements =
  neckAngle :: "number option"
  shoulderAlignment :: "number option"
  spineAlignment :: "number option"
  headTilt :: "number option"
  eyeToScreenDistance :: "number option"

record feedback =
  alertTriggered :: bool
  correctionSuggested :: "string option"
  userResponse :: "string option"
  responseTime :: "number option"

record log_metadata =
  sessionId :: "string option"
  appVersion :: "string option"
  cameraUsed :: bool
  aiModelVersion :: "string option"
  confidence :: "number option"

text \<open>
  The document. The \<^verbatim>\<open>environment\<close> block, \<^verbatim>\<open>tags\<close> and \<^verbatim>\<open>correctedAt\<close> are not
  read or written by the handlers below other than by passing them through, and are
  left out of the record.
\<close>

record posture_log =
  log_id :: object_id
  userId :: object_id
  timestamp :: date
  postureScore :: number
  postureType :: string
  log_measurements :: measurements
  duration :: number
  log_feedback :: feedback
  log_metadata :: log_metadata
  log_notes :: "string option"
  isManualEntry :: bool

definition empty_measurements :: measurements where
  "empty_measurements =
     \<lparr>neckAngle = None, shoulderAlignment = None, spineAlignment = None,
      headTilt = None, eyeToScreenDistance = None\<rparr>"

text \<open>Schema defaults: \<^verbatim>\<open>alertTriggered: false\<close>, \<^verbatim>\<open>userResponse: null\<close>,
  \<^verbatim>\<open>cameraUsed: false\<close>, \<^verbatim>\<open>duration: 1\<close>, \<^verbatim>\<open>isManualEntry: false\<close>.\<close>

definition default_feedback :: feedback where
  "default_feedback =
     \<lparr>alertTriggered = False, correctionSuggested = None, userResponse = None,
      responseTime = None\<rparr>"

definition default_metadata :: log_metadata where
  "default_metadata =
     \<lparr>sessionId = None, appVersion = None, cameraUsed = False, aiModelVersion = None,
      confidence = None\<rparr>"

text \<open>The virtuals \<^verbatim>\<open>postureStatus\<close> and \<^verbatim>\<open>postureGrade\<close>.\<close>

definition postureStatus :: "posture_log \<Rightarrow> string" where
  "postureStatus l =
     (if postureScore l \<ge> 80 then ''good''
      else if postureScore l \<ge> 60 then ''warning''
      else ''bad'')"

definition postureGrade :: "posture_log \<Rightarrow> string" where
  "postureGrade l =
     (if postureScore l \<ge> 90 then ''A+''
      else if postureScore l \<ge> 80 then ''A''
      else if postureScore l \<ge> 70 then ''B''
      else if postureScore l \<ge> 60 then ''C''
      else if postureScore l \<ge> 50 then ''D''
      else ''F'')"

definition needsCorrection :: "posture_log \<Rightarrow> bool" where
  "needsCorrection l = (postureType l = ''poor'' \<or> postureScore l < 60)"

text \<open>The schema's field validators (\<^verbatim>\<open>min\<close>, \<^verbatim>\<open>max\<close>, \<^verbatim>\<open>enum\<close>,
  \<^verbatim>\<open>maxlength\<close>), one predicate per kind.\<close>

definition in_range :: "number \<Rightarrow> number \<Rightarrow> number option \<Rightarrow> bool" where
  "in_range lo hi v = (case v of None \<Rightarrow> True | Some x \<Rightarrow> lo \<le> x \<and> x \<le> hi)"

definition max_length :: "nat \<Rightarrow> string option \<Rightarrow> bool" where
  "max_length n v = (case v of None \<Rightarrow> True | Some s \<Rightarrow> length s \<le> n)"

definition posture_types :: "string list" where
  "posture_types = [''good'', ''moderate'', ''poor'']"

definition user_responses :: "string list" where
  "user_responses = [''corrected'', ''ignored'', ''dismissed'', ''snoozed'']"

definition valid_measurements :: "measurements \<Rightarrow> bool" where
  "valid_measurements m =
     (in_range (-90) 90 (neckAngle m) \<and> in_range (-45) 45 (shoulderAlignment m) \<and>
      in_range (-180) 180 (spineAlignment m) \<and> in_range (-45) 45 (headTilt m) \<and>
      in_range 10 200 (eyeToScreenDistance m))"

definition valid_feedback :: "feedback \<Rightarrow> bool" where
  "valid_feedback f =
     (max_length 200 (correctionSuggested f) \<and>
      (case userResponse f of None \<Rightarrow> True | Some r \<Rightarrow> r \<in> set user_responses) \<and>
      (case responseTime f of None \<Rightarrow> True | Some t \<Rightarrow> 0 \<le> t))"

definition valid_metadata :: "log_metadata \<Rightarrow> bool" where
  "valid_metadata m =
     (max_length 50 (sessionId m) \<and> max_length 20 (appVersion m) \<and>
      max_length 20 (aiModelVersion m) \<and> in_range 0 1 (confidence m))"

definition validate_log :: "posture_log \<Rightarrow> bool" where
  "validate_log l =
     (0 \<le> postureScore l \<and> postureScore l \<le> 100 \<and>
      postureType l \<in> set posture_types \<and>
      valid_measurements (log_measurements l) \<and>
      1 \<le> duration l \<and> duration l \<le> 86400 \<and>
      valid_feedback (log_feedback l) \<and>
      valid_metadata (log_metadata l) \<and>
      max_length 500 (log_notes l))"

text \<open>
  The first pre-save hook: when \<^verbatim>\<open>postureScore\<close> is modified (always so for a new
  document, whose score is required), the type is recomputed from the score.
\<close>

definition pre_save_postureType :: "bool \<Rightarrow> posture_log \<Rightarrow> posture_log" where
  "pre_save_postureType scoreModified l =
     (if scoreModified then
        (if postureScore l \<ge> 80 then l\<lparr>postureType := ''good''\<rparr>
         else if postureScore l \<ge> 60 then l\<lparr>postureType := ''moderate''\<rparr>
         else l\<lparr>postureType := ''poor''\<rparr>)
      else l)"

text \<open>
  The second pre-save hook: a new document with no (or an empty) session id gets a
  generated one; the generated id is random in the source and a parameter here.
\<close>

definition falsy_string :: "string option \<Rightarrow> bool" where
  "falsy_string v = (case v of None \<Rightarrow> True | Some s \<Rightarrow> s = [])"

definition pre_save_sessionId :: "bool \<Rightarrow> string \<Rightarrow> posture_log \<Rightarrow> posture_log" where
  "pre_save_sessionId isNew generated l =
     (if falsy_string (sessionId (log_metadata l)) \<and> isNew
      then l\<lparr>log_metadata := (log_metadata l)\<lparr>sessionId := Some generated\<rparr>\<rparr>
      else l)"

text \<open>
  The collection, keyed by \<^verbatim>\<open>_id\<close>. Saving a new document validates it, runs the two
  hooks and inserts it; a validation failure or a duplicate \<^verbatim>\<open>_id\<close> rejects the
  promise, which every handler turns into its 500 answer.
\<close>

type_synonym log_db = "object_id \<rightharpoonup> posture_log"

definition save_new_log ::
  "string \<Rightarrow> log_db \<Rightarrow> posture_log \<Rightarrow> (posture_log \<times> log_db) option" where
  "save_new_log generated db l =
     (if \<not> validate_log l then None
      else if db (log_id l) \<noteq> None then None
      else
        (let l' = pre_save_sessionId True generated (pre_save_postureType True l)
         in Some (l', db(log_id l \<mapsto> l'))))"

text \<open>The stored category agrees with the stored score.\<close>

definition category_of_score :: "number \<Rightarrow> string" where
  "category_of_score s =
     (if s \<ge> 80 then ''good'' else if s \<ge> 60 then ''moderate'' else ''poor'')"

definition category_consistent :: "posture_log \<Rightarrow> bool" where
  "category_consistent l = (postureType l = category_of_score (postureScore l))"

section \<open>routes/video.js: the detection endpoint\<close>

record detection_metadata =
  d_confidence :: "number option"
  d_aiModelVersion :: "string option"
  d_cameraUsed :: "bool option"

record detection_body =
  d_sessionId :: "string option"
  d_postureScore :: "number option"
  d_measurements :: "measurements option"
  d_metadata :: "detection_metadata option"

text \<open>
  \<^verbatim>\<open>postureDetectionSchema.validate\<close>: the first failing key in schema order, or
  \<open>None\<close> when the body is accepted. Joi strings reject the empty string.
\<close>

definition validate_detection :: "detection_body \<Rightarrow> string option" where
  "validate_detection b =
     (case d_sessionId b of
        None \<Rightarrow> Some ''sessionId''
      | Some sid \<Rightarrow>
          if sid = [] then Some ''sessionId''
          else
            (case d_postureScore b of
               None \<Rightarrow> Some ''postureScore''
             | Some s \<Rightarrow>
                 if \<not> (0 \<le> s \<and> s \<le> 100) then Some ''postureScore''
                 else if \<not> (case d_measurements b of None \<Rightarrow> True
                              | Some m \<Rightarrow> valid_measurements m)
                   then Some ''measurements''
                 else if \<not> (case d_metadata b of None \<Rightarrow> True
                              | Some m \<Rightarrow> in_range 0 1 (d_confidence m) \<and>
                                  max_length 20 (d_aiModelVersion m) \<and>
                                  \<not> (d_aiModelVersion m = Some []))
                   then Some ''metadata''
                 else None))"

record formatted_posture =
  f_id :: object_id
  f_timestamp :: date
  f_score :: number
  f_status :: string
  f_description :: string
  f_alert :: alert_config
  f_measurements :: measurements
  f_duration :: number
  f_grade :: string
  f_feedback :: feedback

definition formatPostureForFrontend :: "posture_log \<Rightarrow> formatted_posture" where
  "formatPostureForFrontend l =
     \<lparr>f_id = log_id l,
      f_timestamp = timestamp l,
      f_score = postureScore l,
      f_status = getPostureStatus (postureScore l),
      f_description = getPostureDescription (postureScore l),
      f_alert = getAlertLevel (postureScore l),
      f_measurements = log_measurements l,
      f_duration = duration l,
      f_grade = postureGrade l,
      f_feedback = log_feedback l\<rparr>"

record detection_response =
  r_logId :: object_id
  r_postureStatus :: string
  r_postureScore :: number
  r_alertTriggered :: bool
  r_correctionSuggested :: string
  r_formatted :: formatted_posture

text \<open>
  The handler behind \<^verbatim>\<open>auth\<close>: \<open>uid\<close> is \<^verbatim>\<open>req.userId\<close>, \<open>now\<close> the clock,
  \<open>oid\<close> the new document's id and \<open>generated\<close> the session id the hook would
  generate. It returns the answer and the collection afterwards.
\<close>

definition detection_log ::
  "object_id \<Rightarrow> date \<Rightarrow> object_id \<Rightarrow> string \<Rightarrow> number \<Rightarrow> measurements option \<Rightarrow>
   detection_metadata option \<Rightarrow> posture_log" where
  "detection_log uid now oid sid score ms md =
     (let postureStatus = getPostureStatus score;
          alertConfig = getAlertLevel score;
          postureType0 = ''good'';
          postureType1 = (if postureStatus = ''warning'' then ''moderate'' else postureType0);
          postureType2 = (if postureStatus = ''bad'' then ''poor'' else postureType1)
      in \<lparr>log_id = oid, userId = uid, timestamp = now, postureScore = score,
          postureType = postureType2,
          log_measurements = (case ms of None \<Rightarrow> empty_measurements | Some m \<Rightarrow> m),
          duration = 1,
          log_feedback = default_feedback
            \<lparr>alertTriggered := shouldAlert alertConfig,
             correctionSuggested := Some (alert_message alertConfig)\<rparr>,
          log_metadata = default_metadata
            \<lparr>sessionId := Some sid,
             cameraUsed := True,
             confidence := Some (case (case md of None \<Rightarrow> None | Some m \<Rightarrow> d_confidence m) of
                                  None \<Rightarrow> 9 / 10
                                | Some c \<Rightarrow> if c = 0 then 9 / 10 else c),
             aiModelVersion := Some (case (case md of None \<Rightarrow> None
                                              | Some m \<Rightarrow> d_aiModelVersion m) of
                                       None \<Rightarrow> ''1.0.0''
                                     | Some v \<Rightarrow> if v = [] then ''1.0.0'' else v)\<rparr>,
          log_notes = None,
          isManualEntry = False\<rparr>)"

definition post_detection ::
  "object_id \<Rightarrow> date \<Rightarrow> object_id \<Rightarrow> string \<Rightarrow> log_db \<Rightarrow> detection_body \<Rightarrow>
   (http_error + detection_response) \<times> log_db" where
  "post_detection uid now oid generated db b =
     (case validate_detection b of
        Some key \<Rightarrow> (Inl (validation_error key), db)
      | None \<Rightarrow>
          (let score = the (d_postureScore b);
               alertConfig = getAlertLevel score;
               l = detection_log uid now oid (the (d_sessionId b)) score
                     (d_measurements b) (d_metadata b)
           in case save_new_log generated db l of
                None \<Rightarrow> (Inl (server_error ''Failed to log posture detection''), db)
              | Some (saved, db') \<Rightarrow>
                  (Inr \<lparr>r_logId = log_id saved,
                        r_postureStatus = getPostureStatus score,
                        r_postureScore = score,
                        r_alertTriggered = shouldAlert alertConfig,
                        r_correctionSuggested = alert_message alertConfig,
                        r_formatted = formatPostureForFrontend saved\<rparr>, db')))"

section \<open>routes/posture.js: creating, updating and deleting a log\<close>

text \<open>
  The body of \<^verbatim>\<open>POST /log\<close> and \<^verbatim>\<open>PUT /logs/:id\<close>. The Joi schema also admits
  top-level joint angles, which are not paths of the model's schema and are dropped by
  it, and an \<^verbatim>\<open>environment\<close> block; both are left out of the type.
\<close>

record posture_body =
  b_timestamp :: "date option"
  b_postureScore :: "number option"
  b_postureType :: "string option"
  b_duration :: "number option"
  b_notes :: "string option"

definition validate_posture_body :: "posture_body \<Rightarrow> string option" where
  "validate_posture_body b =
     (case b_postureScore b of
        None \<Rightarrow> Some ''postureScore''
      | Some s \<Rightarrow>
          if \<not> (0 \<le> s \<and> s \<le> 100) then Some ''postureScore''
          else
            (case b_postureType b of
               None \<Rightarrow> Some ''postureType''
             | Some t \<Rightarrow>
                 if t \<notin> set [''good'', ''poor'', ''moderate''] then Some ''postureType''
                 else if \<not> (case b_duration b of None \<Rightarrow> True | Some d \<Rightarrow> 0 < d)
                   then Some ''duration''
                 else if \<not> (case b_notes b of None \<Rightarrow> True
                              | Some n \<Rightarrow> n \<noteq> [] \<and> length n \<le> 500)
                   then Some ''notes''
                 else None))"

text \<open>The schema trims \<^verbatim>\<open>notes\<close> when it is set.\<close>

definition is_space :: "char \<Rightarrow> bool" where
  "is_space c = (c \<in> set [CHR '' '', CHR 0x09, CHR 0x0A, CHR 0x0B, CHR 0x0C, CHR 0x0D])"

definition trim :: "string \<Rightarrow> string" where
  "trim s = rev (dropWhile is_space (rev (dropWhile is_space s)))"

definition new_posture_log :: "object_id \<Rightarrow> date \<Rightarrow> object_id \<Rightarrow> posture_body \<Rightarrow> posture_log" where
  "new_posture_log uid now oid b =
     \<lparr>log_id = oid, userId = uid,
      timestamp = (case b_timestamp b of None \<Rightarrow> now | Some t \<Rightarrow> if t = 0 then now else t),
      postureScore = the (b_postureScore b),
      postureType = the (b_postureType b),
      log_measurements = empty_measurements,
      duration = (case b_duration b of None \<Rightarrow> 1 | Some d \<Rightarrow> d),
      log_feedback = default_feedback,
      log_metadata = default_metadata,
      log_notes = map_option trim (b_notes b),
      isManualEntry = False\<rparr>"

definition post_log ::
  "object_id \<Rightarrow> date \<Rightarrow> object_id \<Rightarrow> string \<Rightarrow> log_db \<Rightarrow> posture_body \<Rightarrow>
   (http_error + posture_log) \<times> log_db" where
  "post_log uid now oid generated db b =
     (case validate_posture_body b of
        Some key \<Rightarrow> (Inl (validation_error key), db)
      | None \<Rightarrow>
          (case save_new_log generated db (new_posture_log uid now oid b) of
             None \<Rightarrow> (Inl (server_error ''Failed to create posture log''), db)
           | Some (saved, db') \<Rightarrow> (Inr saved, db')))"

text \<open>
  \<^verbatim>\<open>findOneAndUpdate({_id, userId}, req.body, {new: true, runValidators: true})\<close>:
  the update validators check the paths the body sets, the document whose id and owner
  both match is overwritten on those paths and returned, and no save hook runs.
\<close>

definition update_validators :: "posture_body \<Rightarrow> bool" where
  "update_validators b =
     (in_range 0 100 (b_postureScore b) \<and>
      (case b_postureType b of None \<Rightarrow> True | Some t \<Rightarrow> t \<in> set posture_types) \<and>
      in_range 1 86400 (b_duration b) \<and>
      max_length 500 (b_notes b))"

definition apply_update :: "posture_body \<Rightarrow> posture_log \<Rightarrow> posture_log" where
  "apply_update b l =
     l\<lparr>timestamp := (case b_timestamp b of None \<Rightarrow> timestamp l | Some t \<Rightarrow> t),
       postureScore := (case b_postureScore b of None \<Rightarrow> postureScore l | Some s \<Rightarrow> s),
       postureType := (case b_postureType b of None \<Rightarrow> postureType l | Some t \<Rightarrow> t),
       duration := (case b_duration b of None \<Rightarrow> duration l | Some d \<Rightarrow> d),
       log_notes := (case b_notes b of None \<Rightarrow> log_notes l | Some n \<Rightarrow> Some (trim n))\<rparr>"

definition find_owned :: "log_db \<Rightarrow> object_id \<Rightarrow> object_id \<Rightarrow> posture_log option" where
  "find_owned db oid uid =
     (case db oid of
        None \<Rightarrow> None
      | Some l \<Rightarrow> if userId l = uid then Some l else None)"

definition put_log ::
  "object_id \<Rightarrow> object_id \<Rightarrow> log_db \<Rightarrow> posture_body \<Rightarrow> (http_error + posture_log) \<times> log_db" where
  "put_log uid oid db b =
     (case validate_posture_body b of
        Some key \<Rightarrow> (Inl (validation_error key), db)
      | None \<Rightarrow>
          if \<not> update_validators b
          then (Inl (server_error ''Failed to update posture log''), db)
          else
            (case find_owned db oid uid of
               None \<Rightarrow> (Inl log_not_found, db)
             | Some l \<Rightarrow> (Inr (apply_update b l), db(oid \<mapsto> apply_update b l))))"

definition delete_log ::
  "object_id \<Rightarrow> object_id \<Rightarrow> log_db \<Rightarrow> (http_error + string) \<times> log_db" where
  "delete_log uid oid db =
     (case find_owned db oid uid of
        None \<Rightarrow> (Inl log_not_found, db)
      | Some l \<Rightarrow> (Inr ''Posture log deleted successfully'', db(oid := None)))"

section \<open>routes/video.js: answering an alert\<close>

record dismiss_body =
  logId :: "object_id option"
  response :: "string option"

text \<open>The response time is the difference of two clock reads, \<open>now1\<close> and \<open>now2\<close>.\<close>

definition alert_dismiss ::
  "object_id \<Rightarrow> date \<Rightarrow> date \<Rightarrow> log_db \<Rightarrow> dismiss_body \<Rightarrow> (http_error + string) \<times> log_db" where
  "alert_dismiss uid now1 now2 db b =
     (if logId b = None \<or> falsy_string (response b)
      then (Inl (validation_error ''Log ID and response are required''), db)
      else if the (response b) \<notin> set user_responses
      then (Inl (validation_error ''Invalid response type''), db)
      else
        (case find_owned db (the (logId b)) uid of
           None \<Rightarrow> (Inl log_not_found, db)
         | Some l \<Rightarrow>
             (Inr (the (response b)),
              db(the (logId b) \<mapsto>
                l\<lparr>log_feedback := (log_feedback l)
                    \<lparr>userResponse := response b,
                     responseTime := Some (of_int (now1 - now2))\<rparr>\<rparr>))))"

section \<open>External libraries\<close>

text \<open>
  The handlers call bcryptjs, jsonwebtoken and Joi's e-mail check. None of them is code of
  this repository, so they are parameters of the model: \<open>bcrypt_hash p rounds salt\<close> is
  \<^verbatim>\<open>bcrypt.hash(p, rounds)\<close> with the salt it draws written out, \<open>jwt_verify t now\<close>
  is \<^verbatim>\<open>jwt.verify(t, secret)\<close> at the time \<open>now\<close>, either the decoded account id or
  the error it throws.
\<close>

datatype jwt_result = Decoded object_id | JsonWebTokenError | TokenExpiredError | OtherError

record libs =
  bcrypt_hash :: "string \<Rightarrow> nat \<Rightarrow> nat \<Rightarrow> string"
  bcrypt_compare :: "string \<Rightarrow> string \<Rightarrow> bool"
  joi_email :: "string \<Rightarrow> bool"
  jwt_sign :: "object_id \<Rightarrow> date \<Rightarrow> string"
  jwt_verify :: "string \<Rightarrow> date \<Rightarrow> jwt_result"

section \<open>models/User.js\<close>

record profile =
  age :: "number option"
  height :: "number option"
  weight :: "number option"

record login_attempts =
  count :: nat
  lastAttempt :: "date option"
  lockedUntil :: "date option"

record user =
  user_id :: object_id
  user_name :: string
  email :: string
  password :: "string option"
  user_profile :: profile
  accountStatus :: string
  lastLogin :: "date option"
  loginAttempts :: login_attempts

type_synonym user_db = "user list"

definition findById :: "user_db \<Rightarrow> object_id \<Rightarrow> user option" where
  "findById db uid = find (\<lambda>u. user_id u = uid) db"

definition findOneByEmail :: "user_db \<Rightarrow> string \<Rightarrow> user option" where
  "findOneByEmail db e = find (\<lambda>u. email u = e) db"

definition replace_user :: "user_db \<Rightarrow> user \<Rightarrow> user_db" where
  "replace_user db u = map (\<lambda>x. if user_id x = user_id u then u else x) db"

text \<open>\<^verbatim>\<open>String.prototype.toLowerCase\<close> on ASCII letters.\<close>

definition lower_char :: "char \<Rightarrow> char" where
  "lower_char c =
     (case map_of (zip ''ABCDEFGHIJKLMNOPQRSTUVWXYZ'' ''abcdefghijklmnopqrstuvwxyz'') c of
        None \<Rightarrow> c
      | Some l \<Rightarrow> l)"

definition toLowerCase :: "string \<Rightarrow> string" where
  "toLowerCase s = map lower_char s"

text \<open>The virtual \<^verbatim>\<open>isLocked\<close>, with the clock as an argument.\<close>

definition isLocked :: "user \<Rightarrow> date \<Rightarrow> bool" where
  "isLocked u now =
     (case lockedUntil (loginAttempts u) of None \<Rightarrow> False | Some t \<Rightarrow> t > now)"

text \<open>
  The pre-save hook: the password is hashed with cost 12 when it was modified, that is
  when it differs from the value the document was loaded with (\<open>loaded\<close>); a new
  document has no loaded value.
\<close>

definition isModified_password :: "string option option \<Rightarrow> user \<Rightarrow> bool" where
  "isModified_password loaded u =
     (case loaded of None \<Rightarrow> True | Some old \<Rightarrow> old \<noteq> password u)"

definition pre_save_password :: "libs \<Rightarrow> nat \<Rightarrow> string option option \<Rightarrow> user \<Rightarrow> user" where
  "pre_save_password L salt loaded u =
     (if \<not> isModified_password loaded u then u
      else u\<lparr>password := Some (bcrypt_hash L (the (password u)) 12 salt)\<rparr>)"

text \<open>
  Saving a loaded document: the validators of the modified paths run first (for the
  password: required, at least 6 characters), then the hook, then the write. The other
  stored fields are taken to satisfy the schema, as fields written through it do.
\<close>

definition save_user ::
  "libs \<Rightarrow> nat \<Rightarrow> user_db \<Rightarrow> string option \<Rightarrow> user \<Rightarrow> (user \<times> user_db) option" where
  "save_user L salt db loaded u =
     (if isModified_password (Some loaded) u \<and>
         (case password u of None \<Rightarrow> True | Some p \<Rightarrow> length p < 6)
      then None
      else
        (let u' = pre_save_password L salt (Some loaded) u
         in Some (u', replace_user db u')))"

definition comparePassword :: "libs \<Rightarrow> user \<Rightarrow> string \<Rightarrow> bool option" where
  "comparePassword L u candidate =
     (case password u of None \<Rightarrow> None | Some h \<Rightarrow> Some (bcrypt_compare L candidate h))"

text \<open>
  \<^verbatim>\<open>incLoginAttempts\<close> and \<^verbatim>\<open>resetLoginAttempts\<close> write to the stored document
  with \<^verbatim>\<open>updateOne\<close>; the result is the stored document afterwards.
\<close>

definition incLoginAttempts :: "user \<Rightarrow> date \<Rightarrow> user" where
  "incLoginAttempts u now =
     (let la = loginAttempts u in
      if (case lockedUntil la of None \<Rightarrow> False | Some t \<Rightarrow> t < now)
      then u\<lparr>loginAttempts := \<lparr>count = 1, lastAttempt = Some now, lockedUntil = None\<rparr>\<rparr>
      else if count la + 1 \<ge> 5 \<and> \<not> isLocked u now
      then u\<lparr>loginAttempts :=
               \<lparr>count = count la + 1, lastAttempt = Some now,
                lockedUntil = Some (now + 2 * 60 * 60 * 1000)\<rparr>\<rparr>
      else u\<lparr>loginAttempts := la\<lparr>count := count la + 1, lastAttempt := Some now\<rparr>\<rparr>)"

definition resetLoginAttempts :: "user \<Rightarrow> user" where
  "resetLoginAttempts u =
     u\<lparr>loginAttempts := \<lparr>count = 0, lastAttempt = None, lockedUntil = None\<rparr>\<rparr>"

section \<open>middleware/auth.js: auth\<close>

record auth_context =
  req_userId :: object_id
  req_user :: user

definition access_denied :: "string \<Rightarrow> http_error" where
  "access_denied msg = \<lparr>status = 401, error = ''Access Denied'', message = msg\<rparr>"

definition account_suspended :: http_error where
  "account_suspended =
     \<lparr>status = 401, error = ''Account Suspended'',
      message = ''Your account is not active. Please contact support.''\<rparr>"

definition account_locked :: http_error where
  "account_locked =
     \<lparr>status = 401, error = ''Account Locked'',
      message = ''Your account is temporarily locked due to too many failed login attempts''\<rparr>"

text \<open>
  \<open>Inr\<close> is the call of \<^verbatim>\<open>next()\<close> with \<^verbatim>\<open>req.userId\<close> and \<^verbatim>\<open>req.user\<close> set; the
  account is loaded with \<^verbatim>\<open>select("-password")\<close>.
\<close>

definition auth :: "libs \<Rightarrow> date \<Rightarrow> user_db \<Rightarrow> string option \<Rightarrow> http_error + auth_context" where
  "auth L now db authHeader =
     (case authHeader of
        None \<Rightarrow> Inl (access_denied ''No authorization header provided'')
      | Some h \<Rightarrow>
          if h = [] then Inl (access_denied ''No authorization header provided'')
          else if take 7 h \<noteq> ''Bearer ''
          then Inl (access_denied ''Invalid token format. Use Bearer token'')
          else if drop 7 h = [] then Inl (access_denied ''No token provided'')
          else
            (case jwt_verify L (drop 7 h) now of
               JsonWebTokenError \<Rightarrow> Inl (access_denied ''Invalid token'')
             | TokenExpiredError \<Rightarrow> Inl (access_denied ''Token has expired'')
             | OtherError \<Rightarrow> Inl (server_error ''Authentication failed'')
             | Decoded uid \<Rightarrow>
                 (case findById db uid of
                    None \<Rightarrow> Inl (access_denied ''User no longer exists'')
                  | Some u \<Rightarrow>
                      if accountStatus u \<noteq> ''active'' then Inl account_suspended
                      else if isLocked u now then Inl account_locked
                      else Inr \<lparr>req_userId = user_id u,
                                req_user = u\<lparr>password := None\<rparr>\<rparr>)))"

section \<open>routes/auth.js: login and change-password\<close>

record login_body =
  l_email :: "string option"
  l_password :: "string option"

record login_response =
  token :: string
  lr_id :: object_id
  lr_name :: string
  lr_email :: string
  lr_profile :: profile
  lr_lastLogin :: "date option"

definition invalid_credentials :: http_error where
  "invalid_credentials =
     \<lparr>status = 401, error = ''Invalid Credentials'', message = ''Invalid email or password''\<rparr>"

definition validate_login :: "libs \<Rightarrow> login_body \<Rightarrow> string option" where
  "validate_login L b =
     (case l_email b of
        None \<Rightarrow> Some ''email''
      | Some e \<Rightarrow>
          if e = [] \<or> \<not> joi_email L e then Some ''email''
          else if falsy_string (l_password b) then Some ''password''
          else None)"

definition login ::
  "libs \<Rightarrow> date \<Rightarrow> user_db \<Rightarrow> login_body \<Rightarrow> (http_error + login_response) \<times> user_db" where
  "login L now db b =
     (case validate_login L b of
        Some key \<Rightarrow> (Inl (validation_error key), db)
      | None \<Rightarrow>
          (case findOneByEmail db (toLowerCase (the (l_email b))) of
             None \<Rightarrow> (Inl invalid_credentials, db)
           | Some u \<Rightarrow>
               (case password u of
                  None \<Rightarrow> (Inl (server_error ''Failed to login''), db)
                | Some stored \<Rightarrow>
                    if \<not> bcrypt_compare L (the (l_password b)) stored
                    then (Inl invalid_credentials, db)
                    else
                      (case save_user L 0 db (password u) (u\<lparr>lastLogin := Some now\<rparr>) of
                         None \<Rightarrow> (Inl (server_error ''Failed to login''), db)
                       | Some (u', db') \<Rightarrow>
                           (Inr \<lparr>token = jwt_sign L (user_id u') now,
                                 lr_id = user_id u', lr_name = user_name u',
                                 lr_email = email u', lr_profile = user_profile u',
                                 lr_lastLogin = lastLogin u'\<rparr>, db')))))"

record change_password_body =
  currentPassword :: "string option"
  newPassword :: "string option"

definition validate_change_password :: "change_password_body \<Rightarrow> string option" where
  "validate_change_password b =
     (if falsy_string (currentPassword b) then Some ''currentPassword''
      else
        (case newPassword b of
           None \<Rightarrow> Some ''newPassword''
         | Some p \<Rightarrow> if length p < 6 then Some ''newPassword'' else None))"

text \<open>
  The handler behind \<^verbatim>\<open>auth\<close>; \<open>salt1\<close> is the salt of the route's own
  \<^verbatim>\<open>bcrypt.hash\<close>, \<open>salt2\<close> the salt of the hook's.
\<close>

definition change_password ::
  "libs \<Rightarrow> nat \<Rightarrow> nat \<Rightarrow> object_id \<Rightarrow> user_db \<Rightarrow> change_password_body \<Rightarrow>
   (http_error + string) \<times> user_db" where
  "change_password L salt1 salt2 uid db b =
     (case validate_change_password b of
        Some key \<Rightarrow> (Inl (validation_error key), db)
      | None \<Rightarrow>
          (case findById db uid of
             None \<Rightarrow>
               (Inl \<lparr>status = 404, error = ''User Not Found'', message = ''User not found''\<rparr>, db)
           | Some u \<Rightarrow>
               (case password u of
                  None \<Rightarrow> (Inl (server_error ''Failed to change password''), db)
                | Some stored \<Rightarrow>
                    if \<not> bcrypt_compare L (the (currentPassword b)) stored
                    then (Inl \<lparr>status = 401, error = ''Invalid Password'',
                               message = ''Current password is incorrect''\<rparr>, db)
                    else
                      (let hashedPassword = bcrypt_hash L (the (newPassword b)) 12 salt1
                       in case save_user L salt2 db (password u)
                                 (u\<lparr>password := Some hashedPassword\<rparr>) of
                            None \<Rightarrow> (Inl (server_error ''Failed to change password''), db)
                          | Some (u', db') \<Rightarrow> (Inr ''Password changed successfully'', db')))))"

section \<open>middleware/auth.js: userRateLimit\<close>






section \<open>models/UserSettings.js\<close>

record quiet_hours =
  qh_enabled :: bool
  qh_startTime :: string
  qh_endTime :: string

record notification_settings =
  n_enabled :: bool
  postureReminders :: bool
  breakReminders :: bool
  reminderInterval :: number
  dailyReports :: bool
  weeklyReports :: bool
  achievementNotifications :: bool
  reminderSound :: string
  quietHours :: quiet_hours

record working_hours =
  wh_enabled :: bool
  wh_startTime :: string
  wh_endTime :: string
  days :: "string list"

record break_settings =
  br_enabled :: bool
  br_interval :: number
  br_duration :: number
  br_type :: string

record monitoring_settings =
  m_enabled :: bool
  sensitivity :: string
  autoStart :: bool
  cameraPermission :: bool
  backgroundMonitoring :: bool
  workingHours :: working_hours
  breaks :: break_settings

record privacy_settings =
  dataSharing :: bool
  analytics :: bool
  crashReports :: bool
  usageStatistics :: bool
  improveProduct :: bool
  personalizedRecommendations :: bool

record display_settings =
  theme :: string
  language :: string
  units :: string
  fontSize :: string
  colorScheme :: string
  animations :: bool
  showOnboarding :: bool

record custom_goal =
  cg_name :: string
  cg_target :: number
  cg_unit :: string
  cg_period :: string
  cg_active :: bool

record goal_settings =
  dailyPostureScore :: number
  dailyMonitoringHours :: number
  weeklyImprovementTarget :: number
  monthlyStreakTarget :: number
  customGoals :: "custom_goal list"

record accessibility_settings =
  highContrast :: bool
  largeText :: bool
  screenReader :: bool
  keyboardNavigation :: bool
  voiceAlerts :: bool
  visualAlerts :: bool
  reducedMotion :: bool

record sync_integration =
  sync_enabled :: bool
  syncFrequency :: string

record calendar_integration =
  cal_enabled :: bool
  provider :: string

record slack_integration =
  slack_enabled :: bool
  webhook :: "string option"

record integration_settings =
  healthKit :: sync_integration
  googleFit :: sync_integration
  calendar :: calendar_integration
  slack :: slack_integration

record advanced_settings =
  dataRetention :: number
  exportFormat :: string
  backupFrequency :: string
  debugMode :: bool
  betaFeatures :: bool

text \<open>
  The eight preference groups, and the document that carries them. The collection
  (below) is keyed by the account id, so a document's \<^verbatim>\<open>userId\<close> is the key it is
  stored under.
\<close>

record settings_bundle =
  notifications :: notification_settings
  monitoring :: monitoring_settings
  privacy :: privacy_settings
  display :: display_settings
  goals :: goal_settings
  accessibility :: accessibility_settings
  integrations :: integration_settings
  advanced :: advanced_settings

record user_settings =
  s_bundle :: settings_bundle
  createdAt :: date
  updatedAt :: date

text \<open>
  The values the schema's \<^verbatim>\<open>default:\<close> entries give to fields that are not set. In the
  schema the list of the five weekdays stands under a key \<^verbatim>\<open>default\<close> beside
  \<^verbatim>\<open>days\<close>, not inside the declaration of \<^verbatim>\<open>days\<close>, so \<^verbatim>\<open>days\<close> itself has only
  the empty array every array path starts with; that stray path is not part of the record.
\<close>

definition schema_defaults :: settings_bundle where
  "schema_defaults =
     \<lparr>notifications =
        \<lparr>n_enabled = True, postureReminders = True, breakReminders = True,
         reminderInterval = 30, dailyReports = True, weeklyReports = True,
         achievementNotifications = True, reminderSound = ''chime'',
         quietHours = \<lparr>qh_enabled = False, qh_startTime = ''22:00'', qh_endTime = ''08:00''\<rparr>\<rparr>,
      monitoring =
        \<lparr>m_enabled = True, sensitivity = ''medium'', autoStart = False,
         cameraPermission = False, backgroundMonitoring = True,
         workingHours =
           \<lparr>wh_enabled = False, wh_startTime = ''09:00'', wh_endTime = ''17:00'', days = []\<rparr>,
         breaks = \<lparr>br_enabled = True, br_interval = 60, br_duration = 5, br_type = ''short''\<rparr>\<rparr>,
      privacy =
        \<lparr>dataSharing = False, analytics = True, crashReports = True, usageStatistics = True,
         improveProduct = False, personalizedRecommendations = True\<rparr>,
      display =
        \<lparr>theme = ''auto'', language = ''en'', units = ''metric'', fontSize = ''medium'',
         colorScheme = ''default'', animations = True, showOnboarding = True\<rparr>,
      goals =
        \<lparr>dailyPostureScore = 80, dailyMonitoringHours = 6, weeklyImprovementTarget = 5,
         monthlyStreakTarget = 20, customGoals = []\<rparr>,
      accessibility =
        \<lparr>highContrast = False, largeText = False, screenReader = False,
         keyboardNavigation = False, voiceAlerts = False, visualAlerts = True,
         reducedMotion = False\<rparr>,
      integrations =
        \<lparr>healthKit = \<lparr>sync_enabled = False, syncFrequency = ''daily''\<rparr>,
         googleFit = \<lparr>sync_enabled = False, syncFrequency = ''daily''\<rparr>,
         calendar = \<lparr>cal_enabled = False, provider = ''google''\<rparr>,
         slack = \<lparr>slack_enabled = False, webhook = None\<rparr>\<rparr>,
      advanced =
        \<lparr>dataRetention = 90, exportFormat = ''json'', backupFrequency = ''monthly'',
         debugMode = False, betaFeatures = False\<rparr>\<rparr>"

text \<open>The static method \<^verbatim>\<open>getDefaultSettings\<close>, as its literal is written.\<close>

definition getDefaultSettings :: settings_bundle where
  "getDefaultSettings =
     \<lparr>notifications =
        \<lparr>n_enabled = True, postureReminders = True, breakReminders = True,
         reminderInterval = 30, dailyReports = True, weeklyReports = True,
         achievementNotifications = True, reminderSound = ''chime'',
         quietHours = \<lparr>qh_enabled = False, qh_startTime = ''22:00'', qh_endTime = ''08:00''\<rparr>\<rparr>,
      monitoring =
        \<lparr>m_enabled = True, sensitivity = ''medium'', autoStart = False,
         cameraPermission = False, backgroundMonitoring = True,
         workingHours =
           \<lparr>wh_enabled = False, wh_startTime = ''09:00'', wh_endTime = ''17:00'',
            days = [''monday'', ''tuesday'', ''wednesday'', ''thursday'', ''friday'']\<rparr>,
         breaks = \<lparr>br_enabled = True, br_interval = 60, br_duration = 5, br_type = ''short''\<rparr>\<rparr>,
      privacy =
        \<lparr>dataSharing = False, analytics = True, crashReports = True, usageStatistics = True,
         improveProduct = False, personalizedRecommendations = True\<rparr>,
      display =
        \<lparr>theme = ''auto'', language = ''en'', units = ''metric'', fontSize = ''medium'',
         colorScheme = ''default'', animations = True, showOnboarding = True\<rparr>,
      goals =
        \<lparr>dailyPostureScore = 80, dailyMonitoringHours = 6, weeklyImprovementTarget = 5,
         monthlyStreakTarget = 20, customGoals = []\<rparr>,
      accessibility =
        \<lparr>highContrast = False, largeText = False, screenReader = False,
         keyboardNavigation = False, voiceAlerts = False, visualAlerts = True,
         reducedMotion = False\<rparr>,
      integrations =
        \<lparr>healthKit = \<lparr>sync_enabled = False, syncFrequency = ''daily''\<rparr>,
         googleFit = \<lparr>sync_enabled = False, syncFrequency = ''daily''\<rparr>,
         calendar = \<lparr>cal_enabled = False, provider = ''google''\<rparr>,
         slack = \<lparr>slack_enabled = False, webhook = None\<rparr>\<rparr>,
      advanced =
        \<lparr>dataRetention = 90, exportFormat = ''json'', backupFrequency = ''monthly'',
         debugMode = False, betaFeatures = False\<rparr>\<rparr>"

text \<open>The schema's validators. A time matches
  \<^verbatim>\<open>/^([0-1]?[0-9]|2[0-3]):[0-5][0-9]$/\<close>.\<close>

definition is_digit :: "char \<Rightarrow> bool" where
  "is_digit c = (c \<in> set ''0123456789'')"

fun time_ok :: "string \<Rightarrow> bool" where
  "time_ok [h, c, m1, m2] =
     (is_digit h \<and> c = CHR '':'' \<and> m1 \<in> set ''012345'' \<and> is_digit m2)"
| "time_ok [h1, h2, c, m1, m2] =
     (((h1 \<in> set ''01'' \<and> is_digit h2) \<or> (h1 = CHR ''2'' \<and> h2 \<in> set ''0123'')) \<and>
      c = CHR '':'' \<and> m1 \<in> set ''012345'' \<and> is_digit m2)"
| "time_ok _ = False"

definition all_weekdays :: "string list" where
  "all_weekdays =
     [''monday'', ''tuesday'', ''wednesday'', ''thursday'', ''friday'', ''saturday'', ''sunday'']"

definition between :: "number \<Rightarrow> number \<Rightarrow> number \<Rightarrow> bool" where
  "between lo hi x = (lo \<le> x \<and> x \<le> hi)"

definition valid_custom_goal :: "custom_goal \<Rightarrow> bool" where
  "valid_custom_goal g =
     (cg_name g \<noteq> [] \<and> length (cg_name g) \<le> 50 \<and> 1 \<le> cg_target g \<and>
      cg_unit g \<noteq> [] \<and> length (cg_unit g) \<le> 20 \<and>
      cg_period g \<in> set [''daily'', ''weekly'', ''monthly''])"

definition valid_bundle :: "settings_bundle \<Rightarrow> bool" where
  "valid_bundle s =
     (between 5 180 (reminderInterval (notifications s)) \<and>
      reminderSound (notifications s) \<in> set [''chime'', ''bell'', ''notification'', ''gentle'', ''silent''] \<and>
      time_ok (qh_startTime (quietHours (notifications s))) \<and>
      time_ok (qh_endTime (quietHours (notifications s))) \<and>
      sensitivity (monitoring s) \<in> set [''low'', ''medium'', ''high''] \<and>
      time_ok (wh_startTime (workingHours (monitoring s))) \<and>
      time_ok (wh_endTime (workingHours (monitoring s))) \<and>
      list_all (\<lambda>d. d \<in> set all_weekdays) (days (workingHours (monitoring s))) \<and>
      between 15 240 (br_interval (breaks (monitoring s))) \<and>
      between 1 30 (br_duration (breaks (monitoring s))) \<and>
      br_type (breaks (monitoring s)) \<in> set [''micro'', ''short'', ''long''] \<and>
      theme (display s) \<in> set [''light'', ''dark'', ''auto''] \<and>
      length (language (display s)) \<le> 10 \<and>
      units (display s) \<in> set [''metric'', ''imperial''] \<and>
      fontSize (display s) \<in> set [''small'', ''medium'', ''large''] \<and>
      colorScheme (display s) \<in> set [''default'', ''high-contrast'', ''blue-light-filter''] \<and>
      between 50 100 (dailyPostureScore (goals s)) \<and>
      between 1 16 (dailyMonitoringHours (goals s)) \<and>
      between 1 20 (weeklyImprovementTarget (goals s)) \<and>
      between 1 31 (monthlyStreakTarget (goals s)) \<and>
      list_all valid_custom_goal (customGoals (goals s)) \<and>
      syncFrequency (healthKit (integrations s)) \<in> set [''realtime'', ''hourly'', ''daily''] \<and>
      syncFrequency (googleFit (integrations s)) \<in> set [''realtime'', ''hourly'', ''daily''] \<and>
      provider (calendar (integrations s)) \<in> set [''google'', ''outlook'', ''apple''] \<and>
      max_length 200 (webhook (slack (integrations s))) \<and>
      between 30 365 (dataRetention (advanced s)) \<and>
      exportFormat (advanced s) \<in> set [''json'', ''csv'', ''xlsx''] \<and>
      backupFrequency (advanced s) \<in> set [''never'', ''weekly'', ''monthly''])"

text \<open>The two pre-save hooks; each passes (\<open>None\<close>) or fails with its message.\<close>

definition pre_save_workingHours :: "settings_bundle \<Rightarrow> string option" where
  "pre_save_workingHours s =
     (if wh_enabled (workingHours (monitoring s)) \<and> length (days (workingHours (monitoring s))) = 0
      then Some ''At least one working day must be selected''
      else None)"

definition pre_save_quietHours :: "settings_bundle \<Rightarrow> string option" where
  "pre_save_quietHours s =
     (if qh_enabled (quietHours (notifications s)) \<and>
         qh_startTime (quietHours (notifications s)) = qh_endTime (quietHours (notifications s))
      then Some ''Quiet hours start and end time cannot be the same''
      else None)"

text \<open>
  The collection, keyed by the account id, on which it has a unique index.
  \<^verbatim>\<open>save()\<close> of the document of account \<open>uid\<close> runs the validators and the two hooks
  and then writes; it fails when any of them fails.
\<close>

type_synonym settings_db = "object_id \<rightharpoonup> user_settings"

definition save_settings ::
  "settings_db \<Rightarrow> object_id \<Rightarrow> user_settings \<Rightarrow> settings_db option" where
  "save_settings db uid doc =
     (if \<not> valid_bundle (s_bundle doc) then None
      else if pre_save_workingHours (s_bundle doc) \<noteq> None then None
      else if pre_save_quietHours (s_bundle doc) \<noteq> None then None
      else Some (db(uid \<mapsto> doc)))"

text \<open>The two invariants of a stored settings document.\<close>

definition settings_invariant :: "settings_bundle \<Rightarrow> bool" where
  "settings_invariant s =
     ((if wh_enabled (workingHours (monitoring s))
       then days (workingHours (monitoring s)) \<noteq> [] else True) \<and>
      (if qh_enabled (quietHours (notifications s))
       then qh_startTime (quietHours (notifications s)) \<noteq> qh_endTime (quietHours (notifications s))
       else True))"

section \<open>routes/settings.js\<close>

text \<open>\<^verbatim>\<open>GET /\<close>: the stored document, or a new one built from the route's literal,
  with the schema's defaults for what the literal leaves out.\<close>

definition get_literal :: settings_bundle where
  "get_literal =
     schema_defaults
       \<lparr>notifications := (notifications schema_defaults)
          \<lparr>n_enabled := True, postureReminders := True, breakReminders := True,
           reminderInterval := 30, dailyReports := True, weeklyReports := True\<rparr>,
        monitoring := (monitoring schema_defaults)
          \<lparr>m_enabled := True, sensitivity := ''medium'', autoStart := False,
           workingHours :=
             \<lparr>wh_enabled = False, wh_startTime = ''09:00'', wh_endTime = ''17:00'',
              days = [''monday'', ''tuesday'', ''wednesday'', ''thursday'', ''friday'']\<rparr>\<rparr>,
        privacy := (privacy schema_defaults)
          \<lparr>dataSharing := False, analytics := True, crashReports := True\<rparr>,
        display := (display schema_defaults)
          \<lparr>theme := ''auto'', language := ''en'', units := ''metric''\<rparr>,
        goals := (goals schema_defaults)
          \<lparr>dailyPostureScore := 80, dailyMonitoringHours := 6, weeklyImprovementTarget := 5\<rparr>\<rparr>"

definition fetch_failed :: http_error where
  "fetch_failed = server_error ''Failed to fetch settings''"

definition get_settings ::
  "object_id \<Rightarrow> date \<Rightarrow> settings_db \<Rightarrow> (http_error + user_settings) \<times> settings_db" where
  "get_settings uid now db =
     (case db uid of
        Some userSettings \<Rightarrow> (Inr userSettings, db)
      | None \<Rightarrow>
          (let userSettings =
                 \<lparr>s_bundle = get_literal, createdAt = now, updatedAt = now\<rparr>
           in case save_settings db uid userSettings of
                None \<Rightarrow> (Inl fetch_failed, db)
              | Some db' \<Rightarrow> (Inr userSettings, db')))"

text \<open>
  \<^verbatim>\<open>PUT /\<close>. The body's type, its Joi check, and the two ways the handler combines
  a body with a document (the constructor for a new one, the per-key spread for a stored
  one) are parameters; the body has no key for the account id. What is modelled is the
  handler's use of the store: it reads the caller's document and saves the result.
\<close>

definition put_settings ::
  "('b \<Rightarrow> string option) \<Rightarrow> ('b \<Rightarrow> settings_bundle) \<Rightarrow>
   ('b \<Rightarrow> settings_bundle \<Rightarrow> settings_bundle) \<Rightarrow>
   object_id \<Rightarrow> date \<Rightarrow> settings_db \<Rightarrow> 'b \<Rightarrow> (http_error + user_settings) \<times> settings_db" where
  "put_settings validate_body construct_doc merge_doc uid now db b =
     (case validate_body b of
        Some key \<Rightarrow> (Inl (validation_error key), db)
      | None \<Rightarrow>
          (let userSettings =
                 (case db uid of
                    None \<Rightarrow> \<lparr>s_bundle = construct_doc b, createdAt = now, updatedAt = now\<rparr>
                  | Some old \<Rightarrow> old\<lparr>s_bundle := merge_doc b (s_bundle old), updatedAt := now\<rparr>)
           in case save_settings db uid userSettings of
                None \<Rightarrow> (Inl (server_error ''Failed to update settings''), db)
              | Some db' \<Rightarrow> (Inr userSettings, db')))"

text \<open>
  The sub-resource endpoints write with
  \<^verbatim>\<open>findOneAndUpdate({userId}, {$set: {group: req.body}}, {new: true, upsert: true})\<close>:
  the group becomes the body, read back with the schema's defaults for the keys the body
  lacks; the document is created when the account has none; neither validators nor save
  hooks run.
\<close>

definition upsert_group ::
  "object_id \<Rightarrow> date \<Rightarrow> settings_db \<Rightarrow> (settings_bundle \<Rightarrow> settings_bundle) \<Rightarrow>
   user_settings \<times> settings_db" where
  "upsert_group uid now db set_group =
     (let doc = (case db uid of
                   None \<Rightarrow> \<lparr>s_bundle = set_group schema_defaults, createdAt = now,
                             updatedAt = now\<rparr>
                 | Some old \<Rightarrow> old\<lparr>s_bundle := set_group (s_bundle old), updatedAt := now\<rparr>)
      in (doc, db(uid \<mapsto> doc)))"

record notifications_body =
  nb_enabled :: "bool option"
  nb_postureReminders :: "bool option"
  nb_breakReminders :: "bool option"
  nb_reminderInterval :: "number option"
  nb_dailyReports :: "bool option"
  nb_weeklyReports :: "bool option"

definition is_integer :: "number \<Rightarrow> bool" where
  "is_integer x = (x = of_int \<lfloor>x\<rfloor>)"

definition validate_notifications :: "notifications_body \<Rightarrow> string option" where
  "validate_notifications b =
     (case nb_reminderInterval b of
        None \<Rightarrow> None
      | Some i \<Rightarrow> if is_integer i \<and> 5 \<le> i \<and> i \<le> 180 then None else Some ''reminderInterval'')"

definition or_default :: "'a option \<Rightarrow> 'a \<Rightarrow> 'a" where
  "or_default v d = (case v of None \<Rightarrow> d | Some x \<Rightarrow> x)"

definition notifications_of_body :: "notifications_body \<Rightarrow> notification_settings" where
  "notifications_of_body b =
     (notifications schema_defaults)
       \<lparr>n_enabled := or_default (nb_enabled b) (n_enabled (notifications schema_defaults)),
        postureReminders :=
          or_default (nb_postureReminders b) (postureReminders (notifications schema_defaults)),
        breakReminders :=
          or_default (nb_breakReminders b) (breakReminders (notifications schema_defaults)),
        reminderInterval :=
          or_default (nb_reminderInterval b) (reminderInterval (notifications schema_defaults)),
        dailyReports := or_default (nb_dailyReports b) (dailyReports (notifications schema_defaults)),
        weeklyReports :=
          or_default (nb_weeklyReports b) (weeklyReports (notifications schema_defaults))\<rparr>"

definition put_notifications ::
  "object_id \<Rightarrow> date \<Rightarrow> settings_db \<Rightarrow> notifications_body \<Rightarrow>
   (http_error + notification_settings) \<times> settings_db" where
  "put_notifications uid now db b =
     (case validate_notifications b of
        Some key \<Rightarrow> (Inl (validation_error key), db)
      | None \<Rightarrow>
          (case upsert_group uid now db (\<lambda>s. s\<lparr>notifications := notifications_of_body b\<rparr>) of
             (userSettings, db') \<Rightarrow> (Inr (notifications (s_bundle userSettings)), db')))"

record working_hours_body =
  whb_enabled :: "bool option"
  whb_startTime :: "string option"
  whb_endTime :: "string option"
  whb_days :: "string list option"

record monitoring_body =
  mb_enabled :: "bool option"
  mb_sensitivity :: "string option"
  mb_autoStart :: "bool option"
  mb_workingHours :: "working_hours_body option"

definition validate_working_hours :: "working_hours_body \<Rightarrow> bool" where
  "validate_working_hours w =
     ((case whb_startTime w of None \<Rightarrow> True | Some t \<Rightarrow> time_ok t) \<and>
      (case whb_endTime w of None \<Rightarrow> True | Some t \<Rightarrow> time_ok t) \<and>
      (case whb_days w of None \<Rightarrow> True | Some ds \<Rightarrow> list_all (\<lambda>d. d \<in> set all_weekdays) ds))"

definition validate_monitoring :: "monitoring_body \<Rightarrow> string option" where
  "validate_monitoring b =
     (if \<not> (case mb_sensitivity b of None \<Rightarrow> True
             | Some s \<Rightarrow> s \<in> set [''low'', ''medium'', ''high''])
      then Some ''sensitivity''
      else if \<not> (case mb_workingHours b of None \<Rightarrow> True | Some w \<Rightarrow> validate_working_hours w)
      then Some ''workingHours''
      else None)"

definition working_hours_of_body :: "working_hours_body \<Rightarrow> working_hours" where
  "working_hours_of_body w =
     \<lparr>wh_enabled = or_default (whb_enabled w) (wh_enabled (workingHours (monitoring schema_defaults))),
      wh_startTime =
        or_default (whb_startTime w) (wh_startTime (workingHours (monitoring schema_defaults))),
      wh_endTime =
        or_default (whb_endTime w) (wh_endTime (workingHours (monitoring schema_defaults))),
      days = or_default (whb_days w) (days (workingHours (monitoring schema_defaults)))\<rparr>"

definition monitoring_of_body :: "monitoring_body \<Rightarrow> monitoring_settings" where
  "monitoring_of_body b =
     (monitoring schema_defaults)
       \<lparr>m_enabled := or_default (mb_enabled b) (m_enabled (monitoring schema_defaults)),
        sensitivity := or_default (mb_sensitivity b) (sensitivity (monitoring schema_defaults)),
        autoStart := or_default (mb_autoStart b) (autoStart (monitoring schema_defaults)),
        workingHours :=
          (case mb_workingHours b of
             None \<Rightarrow> workingHours (monitoring schema_defaults)
           | Some w \<Rightarrow> working_hours_of_body w)\<rparr>"

definition put_monitoring ::
  "object_id \<Rightarrow> date \<Rightarrow> settings_db \<Rightarrow> monitoring_body \<Rightarrow>
   (http_error + monitoring_settings) \<times> settings_db" where
  "put_monitoring uid now db b =
     (case validate_monitoring b of
        Some key \<Rightarrow> (Inl (validation_error key), db)
      | None \<Rightarrow>
          (case upsert_group uid now db (\<lambda>s. s\<lparr>monitoring := monitoring_of_body b\<rparr>) of
             (userSettings, db') \<Rightarrow> (Inr (monitoring (s_bundle userSettings)), db')))"

record goals_body =
  gb_dailyPostureScore :: "number option"
  gb_dailyMonitoringHours :: "number option"
  gb_weeklyImprovementTarget :: "number option"

definition validate_goals :: "goals_body \<Rightarrow> string option" where
  "validate_goals b =
     (if \<not> in_range 50 100 (gb_dailyPostureScore b) then Some ''dailyPostureScore''
      else if \<not> in_range 1 16 (gb_dailyMonitoringHours b) then Some ''dailyMonitoringHours''
      else if \<not> in_range 1 20 (gb_weeklyImprovementTarget b) then Some ''weeklyImprovementTarget''
      else None)"

definition goals_of_body :: "goals_body \<Rightarrow> goal_settings" where
  "goals_of_body b =
     (goals schema_defaults)
       \<lparr>dailyPostureScore :=
          or_default (gb_dailyPostureScore b) (dailyPostureScore (goals schema_defaults)),
        dailyMonitoringHours :=
          or_default (gb_dailyMonitoringHours b) (dailyMonitoringHours (goals schema_defaults)),
        weeklyImprovementTarget :=
          or_default (gb_weeklyImprovementTarget b)
            (weeklyImprovementTarget (goals schema_defaults))\<rparr>"

definition put_goals ::
  "object_id \<Rightarrow> date \<Rightarrow> settings_db \<Rightarrow> goals_body \<Rightarrow>
   (http_error + goal_settings) \<times> settings_db" where
  "put_goals uid now db b =
     (case validate_goals b of
        Some key \<Rightarrow> (Inl (validation_error key), db)
      | None \<Rightarrow>
          (case upsert_group uid now db (\<lambda>s. s\<lparr>goals := goals_of_body b\<rparr>) of
             (userSettings, db') \<Rightarrow> (Inr (goals (s_bundle userSettings)), db')))"

text \<open>\<^verbatim>\<open>DELETE /reset\<close> overwrites the five groups of its literal, which is the
  literal of \<^verbatim>\<open>GET /\<close>, in the same way.\<close>

definition reset_settings ::
  "object_id \<Rightarrow> date \<Rightarrow> settings_db \<Rightarrow> (http_error + user_settings) \<times> settings_db" where
  "reset_settings uid now db =
     (case upsert_group uid now db
             (\<lambda>s. s\<lparr>notifications := notifications get_literal,
                     monitoring := monitoring get_literal,
                     privacy := privacy get_literal,
                     display := display get_literal,
                     goals := goals get_literal\<rparr>) of
        (userSettings, db') \<Rightarrow> (Inr userSettings, db'))"

record settings_export =
  ex_notifications :: notification_settings
  ex_monitoring :: monitoring_settings
  ex_display :: display_settings
  ex_goals :: goal_settings
  exportedAt :: date

definition export_settings ::
  "object_id \<Rightarrow> date \<Rightarrow> settings_db \<Rightarrow> (http_error + settings_export) \<times> settings_db" where
  "export_settings uid now db =
     (case db uid of
        None \<Rightarrow>
          (Inl \<lparr>status = 404, error = ''Settings Not Found'',
                message = ''No settings found for this user''\<rparr>, db)
      | Some userSettings \<Rightarrow>
          (Inr \<lparr>ex_notifications = notifications (s_bundle userSettings),
                ex_monitoring = monitoring (s_bundle userSettings),
                ex_display = display (s_bundle userSettings),
                ex_goals = goals (s_bundle userSettings),
                exportedAt = now\<rparr>, db))"

text \<open>
  The settings endpoints under one name: a request, and the answer of its handler. The
  first three arguments are the parameters of \<^verbatim>\<open>PUT /\<close>.
\<close>

datatype 'b settings_request =
    GetSettings
  | PutSettings 'b
  | PutNotifications notifications_body
  | PutMonitoring monitoring_body
  | PutGoals goals_body
  | ResetSettings
  | ExportSettings

datatype settings_answer =
    Document user_settings
  | Notifications notification_settings
  | Monitoring monitoring_settings
  | Goals goal_settings
  | Export settings_export

definition answer_as ::
  "('a \<Rightarrow> settings_answer) \<Rightarrow> (http_error + 'a) \<times> settings_db \<Rightarrow>
   (http_error + settings_answer) \<times> settings_db" where
  "answer_as wrap r = (case fst r of Inl e \<Rightarrow> (Inl e, snd r) | Inr v \<Rightarrow> (Inr (wrap v), snd r))"

fun settings_endpoint ::
  "('b \<Rightarrow> string option) \<Rightarrow> ('b \<Rightarrow> settings_bundle) \<Rightarrow>
   ('b \<Rightarrow> settings_bundle \<Rightarrow> settings_bundle) \<Rightarrow>
   object_id \<Rightarrow> date \<Rightarrow> settings_db \<Rightarrow> 'b settings_request \<Rightarrow>
   (http_error + settings_answer) \<times> settings_db" where
  "settings_endpoint V C M uid now db GetSettings = answer_as Document (get_settings uid now db)"
| "settings_endpoint V C M uid now db (PutSettings b) =
     answer_as Document (put_settings V C M uid now db b)"
| "settings_endpoint V C M uid now db (PutNotifications b) =
     answer_as Notifications (put_notifications uid now db b)"
| "settings_endpoint V C M uid now db (PutMonitoring b) =
     answer_as Monitoring (put_monitoring uid now db b)"
| "settings_endpoint V C M uid now db (PutGoals b) = answer_as Goals (put_goals uid now db b)"
| "settings_endpoint V C M uid now db ResetSettings = answer_as Document (reset_settings uid now db)"
| "settings_endpoint V C M uid now db ExportSettings = answer_as Export (export_settings uid now db)"

section \<open>Runs of requests\<close>

text \<open>A sequence of login requests, each with its clock, against one store.\<close>

fun login_seq ::
  "libs \<Rightarrow> user_db \<Rightarrow> (date \<times> login_body) list \<Rightarrow> (http_error + login_response) list \<times> user_db" where
  "login_seq L db [] = ([], db)"
| "login_seq L db ((now, b) # rest) =
     (case login L now db b of
        (r, db') \<Rightarrow> (case login_seq L db' rest of (rs, db'') \<Rightarrow> (r # rs, db'')))"



section \<open>Sample inputs\<close>

text \<open>
  Concrete values for the closed examples below. \<open>stub_libs\<close> stands in for the
  external libraries there: a hash that prefixes a dollar sign, a comparison that
  recomputes it, and a token check that knows one token of account 1.
\<close>

definition stub_libs :: libs where
  "stub_libs =
     \<lparr>bcrypt_hash = (\<lambda>p rounds salt. CHR ''$'' # p),
      bcrypt_compare = (\<lambda>candidate h. h = CHR ''$'' # candidate),
      joi_email = (\<lambda>e. CHR ''@'' \<in> set e),
      jwt_sign = (\<lambda>uid now. ''signed''),
      jwt_verify = (\<lambda>t now. if t = ''tokenA'' then Decoded 1 else JsonWebTokenError)\<rparr>"

definition demo_user :: user where
  "demo_user =
     \<lparr>user_id = 1, user_name = ''Alice'', email = ''alice@example.com'',
      password = Some ''$secret1'',
      user_profile = \<lparr>age = None, height = None, weight = None\<rparr>,
      accountStatus = ''active'', lastLogin = None,
      loginAttempts = \<lparr>count = 0, lastAttempt = None, lockedUntil = None\<rparr>\<rparr>"

definition demo_log :: posture_log where
  "demo_log =
     \<lparr>log_id = 1, userId = 7, timestamp = 1000, postureScore = 50, postureType = ''poor'',
      log_measurements = empty_measurements, duration = 1, log_feedback = default_feedback,
      log_metadata = default_metadata, log_notes = None, isManualEntry = False\<rparr>"

definition demo_put_body :: posture_body where
  "demo_put_body =
     \<lparr>b_timestamp = None, b_postureScore = Some 90, b_postureType = Some ''poor'',
      b_duration = None, b_notes = None\<rparr>"

definition demo_detection :: "number \<Rightarrow> detection_body" where
  "demo_detection s =
     \<lparr>d_sessionId = Some ''s1'', d_postureScore = Some s, d_measurements = None,
      d_metadata = None\<rparr>"

definition demo_login :: "string \<Rightarrow> login_body" where
  "demo_login p = \<lparr>l_email = Some ''Alice@example.com'', l_password = Some p\<rparr>"

definition demo_locked_user :: user where
  "demo_locked_user =
     demo_user\<lparr>loginAttempts := \<lparr>count = 5, lastAttempt = Some 5000, lockedUntil = Some 7205000\<rparr>\<rparr>"



definition demo_settings_doc :: user_settings where
  "demo_settings_doc = \<lparr>s_bundle = getDefaultSettings, createdAt = 4000, updatedAt = 4000\<rparr>"

definition demo_monitoring_body :: monitoring_body where
  "demo_monitoring_body =
     \<lparr>mb_enabled = None, mb_sensitivity = None, mb_autoStart = None,
      mb_workingHours =
        Some \<lparr>whb_enabled = Some True, whb_startTime = None, whb_endTime = None,
              whb_days = Some []\<rparr>\<rparr>"

definition demo_monitoring_doc :: user_settings where
  "demo_monitoring_doc =
     \<lparr>s_bundle = schema_defaults
        \<lparr>monitoring := (monitoring schema_defaults)
           \<lparr>workingHours :=
              \<lparr>wh_enabled = True, wh_startTime = ''09:00'', wh_endTime = ''17:00'', days = []\<rparr>\<rparr>\<rparr>,
      createdAt = 5000, updatedAt = 5000\<rparr>"

section \<open>Properties\<close>

subsection \<open>Category and alert of a stored measurement\<close>

lemma getAlertLevel_cases:
  "shouldAlert (getAlertLevel s) = (s < 80)"
  "alert_message (getAlertLevel s) =
     (if s \<ge> 80 then '''' else if s \<ge> 60 then ''Consider adjusting your sitting position''
      else ''Please sit up straight and adjust your posture'')"
  by (simp_all add: getAlertLevel_def)

lemma pre_save_postureType_consistent:
  "category_consistent (pre_save_postureType True l)"
  by (simp add: pre_save_postureType_def category_consistent_def category_of_score_def)

lemma pre_save_sessionId_fields:
  "postureType (pre_save_sessionId n g l) = postureType l"
  "postureScore (pre_save_sessionId n g l) = postureScore l"
  "log_feedback (pre_save_sessionId n g l) = log_feedback l"
  by (simp_all add: pre_save_sessionId_def)

lemma save_new_log_consistent:
  assumes "save_new_log g db l = Some (l', db')"
  shows "category_consistent l'" and "db' = db(log_id l \<mapsto> l')"
    and "postureScore l' = postureScore l" and "log_id l' = log_id l"
  using assms pre_save_postureType_consistent[of l]
  by (auto simp: save_new_log_def Let_def category_consistent_def pre_save_sessionId_fields
      pre_save_sessionId_def pre_save_postureType_def
      split: if_splits)

text \<open>Every document that \<^verbatim>\<open>POST /log\<close> stores carries the category of its score,
  whatever category the caller sent.\<close>

lemma post_log_consistent:
  assumes "post_log uid now oid g db b = (Inr l, db')"
  shows "category_consistent l \<and> db' = db(oid \<mapsto> l)"
proof -
  from assms obtain s where s: "save_new_log g db (new_posture_log uid now oid b) = Some (l, db')"
    by (auto simp: post_log_def split: option.splits prod.splits)
  have "log_id (new_posture_log uid now oid b) = oid"
    by (simp add: new_posture_log_def)
  with save_new_log_consistent(1,2)[OF s] show ?thesis by simp
qed

lemma detection_log_valid:
  assumes "validate_detection b = None" "length (the (d_sessionId b)) \<le> 50"
  shows "validate_log (detection_log uid now oid (the (d_sessionId b)) (the (d_postureScore b))
           (d_measurements b) (d_metadata b))"
  using assms
  apply (simp add: validate_detection_def split: option.splits if_splits)
  apply (auto simp: validate_log_def detection_log_def Let_def getPostureStatus_def getAlertLevel_def
      posture_types_def valid_feedback_def valid_metadata_def max_length_def in_range_def
      default_feedback_def default_metadata_def empty_measurements_def valid_measurements_def
      split: option.splits if_splits)
  done

lemma post_detection_ok:
  assumes v: "validate_detection b = None" and len: "length (the (d_sessionId b)) \<le> 50"
    and fresh: "db oid = None"
  shows "\<exists>r saved. post_detection uid now oid g db b = (Inr r, db(oid \<mapsto> saved)) \<and>
           postureScore saved = the (d_postureScore b) \<and> userId saved = uid \<and>
           category_consistent saved \<and>
           log_feedback saved = f_feedback (r_formatted r) \<and>
           alertTriggered (log_feedback saved) = shouldAlert (getAlertLevel (the (d_postureScore b))) \<and>
           r_alertTriggered r = shouldAlert (getAlertLevel (the (d_postureScore b))) \<and>
           r_correctionSuggested r = alert_message (getAlertLevel (the (d_postureScore b))) \<and>
           r_postureStatus r = getPostureStatus (the (d_postureScore b)) \<and>
           f_status (r_formatted r) = getPostureStatus (the (d_postureScore b))"
proof -
  let ?l = "detection_log uid now oid (the (d_sessionId b)) (the (d_postureScore b))
           (d_measurements b) (d_metadata b)"
  have val: "validate_log ?l" using detection_log_valid[OF v len] .
  have id: "log_id ?l = oid" "userId ?l = uid" "postureScore ?l = the (d_postureScore b)"
    "alertTriggered (log_feedback ?l) = shouldAlert (getAlertLevel (the (d_postureScore b)))"
    by (simp_all add: detection_log_def Let_def default_feedback_def)
  let ?s = "pre_save_sessionId True g (pre_save_postureType True ?l)"
  have sv: "save_new_log g db ?l = Some (?s, db(oid \<mapsto> ?s))"
    using val fresh id by (simp add: save_new_log_def Let_def)
  have cons: "category_consistent ?s"
    using save_new_log_consistent(1)[OF sv] .
  have flds: "postureScore ?s = the (d_postureScore b)" "userId ?s = uid"
    "alertTriggered (log_feedback ?s) = shouldAlert (getAlertLevel (the (d_postureScore b)))"
    using id by (simp_all add: pre_save_sessionId_def pre_save_postureType_def)
  let ?r = "\<lparr>r_logId = log_id ?s,
             r_postureStatus = getPostureStatus (the (d_postureScore b)),
             r_postureScore = the (d_postureScore b),
             r_alertTriggered = shouldAlert (getAlertLevel (the (d_postureScore b))),
             r_correctionSuggested = alert_message (getAlertLevel (the (d_postureScore b))),
             r_formatted = formatPostureForFrontend ?s\<rparr>"
  have "post_detection uid now oid g db b = (Inr ?r, db(oid \<mapsto> ?s))"
    using v sv by (simp add: post_detection_def Let_def)
  then show ?thesis using cons flds
    by (intro exI[of _ ?r] exI[of _ ?s]) (simp add: formatPostureForFrontend_def)
qed

lemma getPostureStatus_cases:
  "getPostureStatus s =
     (if s \<ge> 80 then ''good'' else if s \<ge> 60 then ''warning''
      else if s > 0 then ''bad'' else ''neutral'')"
  by (simp add: getPostureStatus_def)

text \<open>
  C5, as the code has it. \<^verbatim>\<open>POST /api/video/detection\<close> derives category and alert
  from the submitted score alone. The category (good, moderate, poor) is the
  \<^verbatim>\<open>postureType\<close> of the measurement the handler stores; the JSON answer has no
  category field, and its \<^verbatim>\<open>postureStatus\<close> and \<^verbatim>\<open>status\<close> fields read good,
  warning, bad or neutral. For a body the schema accepts (score between 0 and 100) whose
  session id fits the model's 50 characters and a fresh document id, the handler answers
  200 and stores one measurement \<open>saved\<close> with the submitted score, and: from 80 on the
  answer has \<^verbatim>\<open>alertTriggered\<close> false and status good, and the stored category is
  good; from 60 up to 80 the alert is triggered, the message is the warning text, the
  status is warning and the stored category is moderate; below 60 the alert is triggered,
  the message is the critical text, the stored category is poor and the status is bad
  (neutral at score 0).
\<close>

theorem detection_thresholds:
  assumes "validate_detection b = None" and "length (the (d_sessionId b)) \<le> 50"
    and "db oid = None" and "d_postureScore b = Some s"
  shows "\<exists>r saved. post_detection uid now oid g db b = (Inr r, db(oid \<mapsto> saved)) \<and>
           postureScore saved = s \<and>
           r_postureStatus r = f_status (r_formatted r) \<and>
           (s \<ge> 80 \<longrightarrow> \<not> r_alertTriggered r \<and> postureType saved = ''good'' \<and>
              r_postureStatus r = ''good'') \<and>
           (60 \<le> s \<and> s < 80 \<longrightarrow> r_alertTriggered r \<and> postureType saved = ''moderate'' \<and>
              r_postureStatus r = ''warning'' \<and>
              r_correctionSuggested r = ''Consider adjusting your sitting position'') \<and>
           (s < 60 \<longrightarrow> r_alertTriggered r \<and> postureType saved = ''poor'' \<and>
              r_postureStatus r = (if s > 0 then ''bad'' else ''neutral'') \<and>
              r_correctionSuggested r = ''Please sit up straight and adjust your posture'')"
proof -
  obtain r saved where h: "post_detection uid now oid g db b = (Inr r, db(oid \<mapsto> saved))"
      "postureScore saved = the (d_postureScore b)" "category_consistent saved"
      "r_alertTriggered r = shouldAlert (getAlertLevel (the (d_postureScore b)))"
      "r_correctionSuggested r = alert_message (getAlertLevel (the (d_postureScore b)))"
      "r_postureStatus r = getPostureStatus (the (d_postureScore b))"
      "f_status (r_formatted r) = getPostureStatus (the (d_postureScore b))"
    using post_detection_ok[of b db oid uid now g] assms(1-3) by blast
  have "postureType saved = category_of_score s"
    using h(2,3) assms(4) by (simp add: category_consistent_def)
  then show ?thesis using h assms(4)
    by (intro exI[of _ r] exI[of _ saved])
      (simp add: getAlertLevel_cases getPostureStatus_cases category_of_score_def)
qed

text \<open>The scenario of the specification: a score of 45, then a score of 85.\<close>

theorem detection_thresholds_witness:
  "(\<exists>r saved. post_detection 7 1000 1 ''g'' Map.empty (demo_detection 45) = (Inr r, [1 \<mapsto> saved]) \<and>
      r_alertTriggered r \<and> postureType saved = ''poor'' \<and> r_postureStatus r = ''bad'' \<and>
      r_correctionSuggested r = ''Please sit up straight and adjust your posture'') \<and>
   (\<exists>r saved. post_detection 7 2000 2 ''g'' Map.empty (demo_detection 85) = (Inr r, [2 \<mapsto> saved]) \<and>
      \<not> r_alertTriggered r \<and> postureType saved = ''good'' \<and> r_postureStatus r = ''good'')"
proof -
  have v: "validate_detection (demo_detection s) = None" if "0 \<le> s" "s \<le> 100" for s
    using that by (simp add: validate_detection_def demo_detection_def)
  have l: "length (the (d_sessionId (demo_detection s))) \<le> 50" for s
    by (simp add: demo_detection_def)
  have a: "d_postureScore (demo_detection s) = Some s" for s by (simp add: demo_detection_def)
  show ?thesis
    using detection_thresholds[of "demo_detection 45" Map.empty 1 45 7 1000 "''g''"]
      detection_thresholds[of "demo_detection 85" Map.empty 2 85 7 2000 "''g''"]
    by (simp add: v l a) blast
qed

text \<open>
  The answer does not carry the category: for a score of 45 the stored measurement has
  category poor, while both status fields of the answer read bad.
\<close>

theorem detection_category_counterexample:
  "map_sum status r_postureStatus (fst (post_detection 7 1000 1 ''g'' Map.empty (demo_detection 45))) =
     Inr ''bad'' \<and>
   map_sum status (f_status \<circ> r_formatted)
     (fst (post_detection 7 1000 1 ''g'' Map.empty (demo_detection 45))) = Inr ''bad'' \<and>
   map_option postureType (snd (post_detection 7 1000 1 ''g'' Map.empty (demo_detection 45)) 1) =
     Some ''poor'' \<and>
   ''bad'' \<noteq> ''poor''"
  by (simp add: post_detection_def validate_detection_def demo_detection_def detection_log_def
      save_new_log_def validate_log_def valid_measurements_def valid_feedback_def
      valid_metadata_def in_range_def max_length_def posture_types_def empty_measurements_def
      default_feedback_def default_metadata_def getPostureStatus_def getAlertLevel_def
      pre_save_postureType_def pre_save_sessionId_def falsy_string_def
      formatPostureForFrontend_def Let_def)

text \<open>
  C2. The stored category of a measurement is the category of its stored score after
  every operation that persists it. This holds for the two creating endpoints
  (\<open>post_log_consistent\<close>, \<open>post_detection_ok\<close>), where the save hook recomputes the
  category. It fails for \<^verbatim>\<open>PUT /api/posture/logs/:id\<close>, which writes the body with
  \<^verbatim>\<open>findOneAndUpdate\<close> and so runs no save hook: the owner of a measurement who sends
  score 90 with category poor gets exactly that stored, while the category of 90 is good.
\<close>

theorem put_log_category_diverges:
  "put_log 7 1 [1 \<mapsto> demo_log] demo_put_body =
     (Inr (demo_log\<lparr>postureScore := 90\<rparr>), [1 \<mapsto> demo_log\<lparr>postureScore := 90\<rparr>]) \<and>
   postureType (demo_log\<lparr>postureScore := 90\<rparr>) = ''poor'' \<and>
   category_of_score 90 = ''good'' \<and>
   \<not> category_consistent (demo_log\<lparr>postureScore := 90\<rparr>)"
  by (simp add: put_log_def validate_posture_body_def update_validators_def demo_put_body_def
      demo_log_def find_owned_def apply_update_def in_range_def max_length_def posture_types_def
      category_of_score_def category_consistent_def)

subsection \<open>The authentication middleware\<close>

text \<open>
  C4, as the code has it. For a request whose header is \<^verbatim>\<open>Bearer\<close> followed by a
  non-empty token that verifies to an account id found in the store: an account whose
  status is not active is rejected with the suspended answer; an active account whose
  lock-until lies in the future is rejected with the locked answer; otherwise the
  request continues with the account id and the account (without its password)
  attached. Both rejections carry status 401, each with its own error label.
\<close>

theorem auth_checks:
  assumes "authHeader = Some (''Bearer '' @ tok)" and "tok \<noteq> []"
    and "jwt_verify L tok now = Decoded uid" and "findById db uid = Some u"
  shows "auth L now db authHeader =
     (if accountStatus u \<noteq> ''active'' then Inl account_suspended
      else if isLocked u now then Inl account_locked
      else Inr \<lparr>req_userId = user_id u, req_user = u\<lparr>password := None\<rparr>\<rparr>) \<and>
     status account_suspended = 401 \<and> error account_suspended = ''Account Suspended'' \<and>
     status account_locked = 401 \<and> error account_locked = ''Account Locked''"
  using assms by (simp add: auth_def account_suspended_def account_locked_def)

theorem auth_checks_witness:
  "auth stub_libs 5000 [demo_user] (Some ''Bearer tokenA'') =
     Inr \<lparr>req_userId = 1, req_user = demo_user\<lparr>password := None\<rparr>\<rparr> \<and>
   auth stub_libs 5000 [demo_user\<lparr>accountStatus := ''inactive''\<rparr>] (Some ''Bearer tokenA'') =
     Inl account_suspended \<and>
   auth stub_libs 5000
     [demo_user\<lparr>loginAttempts := \<lparr>count = 5, lastAttempt = Some 4000, lockedUntil = Some 9000\<rparr>\<rparr>]
     (Some ''Bearer tokenA'') = Inl account_locked"
  using auth_checks[of "Some ''Bearer tokenA''" "''tokenA''" stub_libs 5000 1 "[demo_user]" demo_user]
    auth_checks[of "Some ''Bearer tokenA''" "''tokenA''" stub_libs 5000 1
      "[demo_user\<lparr>accountStatus := ''inactive''\<rparr>]" "demo_user\<lparr>accountStatus := ''inactive''\<rparr>"]
    auth_checks[of "Some ''Bearer tokenA''" "''tokenA''" stub_libs 5000 1
      "[demo_user\<lparr>loginAttempts := \<lparr>count = 5, lastAttempt = Some 4000, lockedUntil = Some 9000\<rparr>\<rparr>]"
      "demo_user\<lparr>loginAttempts := \<lparr>count = 5, lastAttempt = Some 4000, lockedUntil = Some 9000\<rparr>\<rparr>"]
  by (simp add: stub_libs_def demo_user_def findById_def isLocked_def)

text \<open>
  The status is not 403: a suspended account and a locked account, each with a valid
  token, are both answered with status 401.
\<close>

theorem auth_status_counterexample:
  "auth stub_libs 5000 [demo_user\<lparr>accountStatus := ''suspended''\<rparr>] (Some ''Bearer tokenA'') =
     Inl \<lparr>status = 401, error = ''Account Suspended'',
          message = ''Your account is not active. Please contact support.''\<rparr> \<and>
   auth stub_libs 5000
     [demo_user\<lparr>loginAttempts := \<lparr>count = 5, lastAttempt = Some 4000, lockedUntil = Some 9000\<rparr>\<rparr>]
     (Some ''Bearer tokenA'') =
     Inl \<lparr>status = 401, error = ''Account Locked'',
          message = ''Your account is temporarily locked due to too many failed login attempts''\<rparr> \<and>
   (401::nat) \<noteq> 403"
  by (simp add: auth_def stub_libs_def demo_user_def findById_def isLocked_def
      account_suspended_def account_locked_def)

subsection \<open>Login and the lockout fields\<close>

text \<open>The model's own method does lock an account at the fifth counted failure, for two
  hours from that attempt.\<close>

lemma incLoginAttempts_locks_at_five:
  assumes "loginAttempts u = \<lparr>count = 0, lastAttempt = None, lockedUntil = None\<rparr>"
  shows "loginAttempts (incLoginAttempts (incLoginAttempts (incLoginAttempts (incLoginAttempts
           (incLoginAttempts u t1) t2) t3) t4) t5) =
         \<lparr>count = 5, lastAttempt = Some t5, lockedUntil = Some (t5 + 7200000)\<rparr>"
  using assms by (simp add: incLoginAttempts_def Let_def isLocked_def)

text \<open>No login, successful or not, changes the lockout fields of any stored account
  (account ids being unique).\<close>

lemma find_in_set: "find P xs = Some x \<Longrightarrow> x \<in> set xs \<and> P x"
  by (induction xs) (auto split: if_splits)

lemma replace_user_loginAttempts:
  assumes "distinct (map user_id db)" "u \<in> set db" "user_id u' = user_id u"
    "loginAttempts u' = loginAttempts u"
  shows "map loginAttempts (replace_user db u') = map loginAttempts db"
proof -
  have "loginAttempts (if user_id x = user_id u' then u' else x) = loginAttempts x"
    if "x \<in> set db" for x
  proof (cases "user_id x = user_id u'")
    case True
    then have "x = u" using assms(1,2,3) that by (metis distinct_map inj_onD)
    then show ?thesis using assms(4) True by simp
  next
    case False
    then show ?thesis by simp
  qed
  then show ?thesis by (simp add: replace_user_def)
qed

lemma login_keeps_loginAttempts:
  assumes "distinct (map user_id db)"
  shows "map loginAttempts (snd (login L now db b)) = map loginAttempts db"
proof (cases "\<exists>r u' db'. login L now db b = (Inr r, db') \<and> db' \<noteq> db")
  case False
  then show ?thesis by (cases "login L now db b") (auto simp: login_def split: option.splits if_splits)
next
  case True
  then obtain u where u: "findOneByEmail db (toLowerCase (the (l_email b))) = Some u"
    and s: "snd (login L now db b) = replace_user db (u\<lparr>lastLogin := Some now\<rparr>)"
    by (auto simp: login_def save_user_def Let_def pre_save_password_def isModified_password_def
        split: option.splits if_splits)
  have "u \<in> set db" using u find_in_set[of _ db u] by (simp add: findOneByEmail_def)
  then show ?thesis
    using replace_user_loginAttempts[OF assms, of u "u\<lparr>lastLogin := Some now\<rparr>"] s by simp
qed

lemma demo_login_wrong:
  "login stub_libs now [demo_user] (demo_login ''wrong'') = (Inl invalid_credentials, [demo_user])"
  by (simp add: login_def validate_login_def demo_login_def stub_libs_def falsy_string_def
      findOneByEmail_def toLowerCase_def lower_char_def demo_user_def comparePassword_def)

text \<open>
  C1. Five consecutive failed logins lock the account for two hours, a sixth attempt
  inside the lock is refused even with the right password, and a login after the lock
  resets the counter. The login handler does none of this: it never calls
  \<open>incLoginAttempts\<close> or \<open>resetLoginAttempts\<close> and never reads \<open>isLocked\<close>.
  Five wrong passwords in a row are each answered 401 and leave the stored account as
  it was, with counter 0 and no lock; the sixth attempt, with the right password,
  is answered 200; and an account whose lock-until lies two hours ahead logs in with
  the right password all the same.
\<close>

theorem login_never_locks:
  "login_seq stub_libs [demo_user]
     [(1000, demo_login ''wrong''), (2000, demo_login ''wrong''), (3000, demo_login ''wrong''),
      (4000, demo_login ''wrong''), (5000, demo_login ''wrong'')] =
     ([Inl invalid_credentials, Inl invalid_credentials, Inl invalid_credentials,
       Inl invalid_credentials, Inl invalid_credentials], [demo_user]) \<and>
   loginAttempts demo_user = \<lparr>count = 0, lastAttempt = None, lockedUntil = None\<rparr> \<and>
   login stub_libs 6000 [demo_user] (demo_login ''secret1'') =
     (Inr \<lparr>token = ''signed'', lr_id = 1, lr_name = ''Alice'', lr_email = ''alice@example.com'',
           lr_profile = \<lparr>age = None, height = None, weight = None\<rparr>,
           lr_lastLogin = Some 6000\<rparr>,
      [demo_user\<lparr>lastLogin := Some 6000\<rparr>]) \<and>
   isLocked demo_locked_user 6000 \<and>
   login stub_libs 6000 [demo_locked_user] (demo_login ''secret1'') =
     (Inr \<lparr>token = ''signed'', lr_id = 1, lr_name = ''Alice'', lr_email = ''alice@example.com'',
           lr_profile = \<lparr>age = None, height = None, weight = None\<rparr>,
           lr_lastLogin = Some 6000\<rparr>,
      [demo_locked_user\<lparr>lastLogin := Some 6000\<rparr>])"
  by (simp add: demo_login_wrong)
    (simp add: login_def validate_login_def demo_login_def stub_libs_def falsy_string_def
      findOneByEmail_def toLowerCase_def lower_char_def demo_user_def comparePassword_def
      save_user_def isModified_password_def pre_save_password_def replace_user_def Let_def
      demo_locked_user_def isLocked_def)

subsection \<open>Storing and changing the password\<close>

text \<open>
  A new account saved with the plaintext \<open>p\<close> stores one \<^verbatim>\<open>bcrypt.hash\<close> of \<open>p\<close>
  with cost 12, and \<open>comparePassword\<close> hands the candidate and the stored value to
  \<^verbatim>\<open>bcrypt.compare\<close>; what the comparison answers is the library's matter.
\<close>

lemma new_account_password:
  "password (pre_save_password L salt None (u\<lparr>password := Some p\<rparr>)) =
     Some (bcrypt_hash L p 12 salt)"
  "comparePassword L (pre_save_password L salt None (u\<lparr>password := Some p\<rparr>)) candidate =
     Some (bcrypt_compare L candidate (bcrypt_hash L p 12 salt))"
  by (simp_all add: pre_save_password_def isModified_password_def comparePassword_def)

lemma findById_replace:
  "findById db uid = Some u \<Longrightarrow> user_id u' = uid \<Longrightarrow> findById (replace_user db u') uid = Some u'"
  by (induction db) (auto simp: findById_def replace_user_def)

lemma findOneByEmail_replace:
  "findOneByEmail db e = Some u \<Longrightarrow> email u' = e \<Longrightarrow> user_id u' = user_id u \<Longrightarrow>
   findOneByEmail (replace_user db u') e = Some u'"
  by (induction db) (auto simp: findOneByEmail_def replace_user_def)

lemma findById_id: "findById db uid = Some u \<Longrightarrow> user_id u = uid"
  by (induction db) (auto simp: findById_def split: if_splits)

text \<open>
  C3. After a successful \<^verbatim>\<open>POST /api/auth/change-password\<close> the stored password is the
  hash of the hash of the new password: the route stores \<open>h\<close>, the hash of the new
  password, and the save hook, seeing a modified password, hashes \<open>h\<close> again. So
  \<open>comparePassword\<close> with the new password answers false and a later login with it is
  answered with the invalid-credentials error. The premises are those of a successful
  change (the account exists, the current password verifies, the new one has at least 6
  characters), two facts true of every bcrypt hash (\<open>h\<close> differs from the value stored
  before, and has at least 6 characters), and what is assumed of the library: against
  the hash of \<open>h\<close> it accepts no candidate but \<open>h\<close>, and \<open>h\<close> is not the new password
  itself.
\<close>

theorem change_password_double_hash:
  assumes found: "findById db uid = Some u"
    and stored: "password u = Some old"
    and cur: "cur \<noteq> []" "bcrypt_compare L cur old"
    and new: "6 \<le> length new"
    and h: "h = bcrypt_hash L new 12 salt1" "h \<noteq> old" "6 \<le> length h"
    and sound: "\<And>q. bcrypt_compare L q (bcrypt_hash L h 12 salt2) \<Longrightarrow> q = h"
    and differs: "h \<noteq> new"
  shows "\<exists>db' u'.
      change_password L salt1 salt2 uid db \<lparr>currentPassword = Some cur, newPassword = Some new\<rparr> =
        (Inr ''Password changed successfully'', db') \<and>
      findById db' uid = Some u' \<and>
      password u' = Some (bcrypt_hash L (bcrypt_hash L new 12 salt1) 12 salt2) \<and>
      comparePassword L u' new = Some False \<and>
      (\<forall>now e. e \<noteq> [] \<and> joi_email L e \<and> findOneByEmail db (toLowerCase e) = Some u \<longrightarrow>
         login L now db' \<lparr>l_email = Some e, l_password = Some new\<rparr> =
           (Inl invalid_credentials, db'))"
proof -
  let ?u' = "u\<lparr>password := Some (bcrypt_hash L h 12 salt2)\<rparr>"
  let ?db' = "replace_user db ?u'"
  have uid: "user_id u = uid" using findById_id[OF found] .
  have sv: "save_user L salt2 db (password u) (u\<lparr>password := Some h\<rparr>) = Some (?u', ?db')"
    using stored h by (simp add: save_user_def isModified_password_def pre_save_password_def Let_def)
  have cp: "change_password L salt1 salt2 uid db \<lparr>currentPassword = Some cur, newPassword = Some new\<rparr> =
        (Inr ''Password changed successfully'', ?db')"
    using found stored cur new sv h(1)
    by (simp add: change_password_def validate_change_password_def falsy_string_def
        comparePassword_def Let_def)
  have f': "findById ?db' uid = Some ?u'"
    using findById_replace[OF found, of ?u'] uid by simp
  have nc: "\<not> bcrypt_compare L new (bcrypt_hash L h 12 salt2)"
    using sound[of new] differs by auto
  have cmp: "comparePassword L ?u' new = Some False"
    using nc by (simp add: comparePassword_def)
  have lg: "login L now ?db' \<lparr>l_email = Some e, l_password = Some new\<rparr> =
           (Inl invalid_credentials, ?db')"
    if "e \<noteq> []" "joi_email L e" "findOneByEmail db (toLowerCase e) = Some u" for now e
  proof -
    have "email u = toLowerCase e" using that(3)
      by (induction db) (auto simp: findOneByEmail_def split: if_splits)
    then have "findOneByEmail ?db' (toLowerCase e) = Some ?u'"
      using findOneByEmail_replace[OF that(3), of ?u'] by simp
    moreover have "new \<noteq> []" using new by auto
    ultimately show ?thesis using that(1,2) nc
      by (simp add: login_def validate_login_def falsy_string_def)
  qed
  show ?thesis
    using cp f' cmp lg h(1) by (intro exI[of _ ?db'] exI[of _ ?u']) simp
qed

theorem change_password_double_hash_witness:
  "change_password stub_libs 1 2 1 [demo_user]
      \<lparr>currentPassword = Some ''secret1'', newPassword = Some ''secret2''\<rparr> =
     (Inr ''Password changed successfully'', [demo_user\<lparr>password := Some ''$$secret2''\<rparr>]) \<and>
   comparePassword stub_libs (demo_user\<lparr>password := Some ''$$secret2''\<rparr>) ''secret2'' = Some False \<and>
   login stub_libs 9000 [demo_user\<lparr>password := Some ''$$secret2''\<rparr>]
      \<lparr>l_email = Some ''alice@example.com'', l_password = Some ''secret2''\<rparr> =
     (Inl invalid_credentials, [demo_user\<lparr>password := Some ''$$secret2''\<rparr>])"
proof -
  have f: "findById [demo_user] 1 = Some demo_user"
    by (simp add: findById_def demo_user_def)
  have e: "findOneByEmail [demo_user] (toLowerCase ''alice@example.com'') = Some demo_user"
    by (simp add: findOneByEmail_def demo_user_def toLowerCase_def lower_char_def)
  have s: "bcrypt_compare stub_libs q (bcrypt_hash stub_libs ''$secret2'' 12 2) \<Longrightarrow> q = ''$secret2''" for q
    by (simp add: stub_libs_def)
  obtain db' u' where r:
    "change_password stub_libs 1 2 1 [demo_user]
      \<lparr>currentPassword = Some ''secret1'', newPassword = Some ''secret2''\<rparr> =
        (Inr ''Password changed successfully'', db')"
    "findById db' 1 = Some u'"
    "password u' = Some (bcrypt_hash stub_libs (bcrypt_hash stub_libs ''secret2'' 12 1) 12 2)"
    "comparePassword stub_libs u' ''secret2'' = Some False"
    "\<forall>now e. e \<noteq> [] \<and> joi_email stub_libs e \<and> findOneByEmail [demo_user] (toLowerCase e) = Some demo_user \<longrightarrow>
         login stub_libs now db' \<lparr>l_email = Some e, l_password = Some ''secret2''\<rparr> =
           (Inl invalid_credentials, db')"
    using change_password_double_hash[OF f, of "''$secret1''" "''secret1''" stub_libs "''secret2''"
        "''$secret2''" 1 2]
    by (simp add: stub_libs_def demo_user_def) blast
  have db': "db' = [demo_user\<lparr>password := Some ''$$secret2''\<rparr>]"
    using r(1)
    by (simp add: change_password_def validate_change_password_def falsy_string_def findById_def
        demo_user_def comparePassword_def stub_libs_def save_user_def isModified_password_def
        pre_save_password_def replace_user_def Let_def)
  have "u' = demo_user\<lparr>password := Some ''$$secret2''\<rparr>"
    using r(2) unfolding db' by (simp add: findById_def demo_user_def)
  moreover have "joi_email stub_libs ''alice@example.com''" by (simp add: stub_libs_def)
  ultimately show ?thesis
    using r(1,4) r(5)[rule_format, of "''alice@example.com''" 9000] e unfolding db' by simp
qed

subsection \<open>The per-account rate limiter\<close>












subsection \<open>Settings: defaults and invariants\<close>

lemma get_literal_default: "get_literal = getDefaultSettings"
  by (simp add: get_literal_def schema_defaults_def getDefaultSettings_def)

lemma valid_default: "valid_bundle getDefaultSettings"
  by (simp add: valid_bundle_def getDefaultSettings_def between_def all_weekdays_def
      max_length_def is_digit_def)

lemma hooks_default:
  "pre_save_workingHours getDefaultSettings = None" "pre_save_quietHours getDefaultSettings = None"
  by (simp_all add: pre_save_workingHours_def pre_save_quietHours_def getDefaultSettings_def)

text \<open>
  C9. For an account with no settings document, \<^verbatim>\<open>GET /api/settings\<close> creates one
  and returns it; its preference groups are exactly the documented default bundle, the
  value of \<open>getDefaultSettings\<close>, in particular sensitivity medium and reminder interval
  30; and every later \<^verbatim>\<open>GET\<close> returns that same document and leaves the store as it
  is.
\<close>

theorem settings_lazy_default:
  assumes "db uid = None"
  shows "\<exists>doc. get_settings uid now db = (Inr doc, db(uid \<mapsto> doc)) \<and>
           s_bundle doc = getDefaultSettings \<and>
           sensitivity (monitoring (s_bundle doc)) = ''medium'' \<and>
           reminderInterval (notifications (s_bundle doc)) = 30 \<and>
           (\<forall>later. get_settings uid later (db(uid \<mapsto> doc)) = (Inr doc, db(uid \<mapsto> doc)))"
proof -
  let ?doc = "\<lparr>s_bundle = getDefaultSettings, createdAt = now, updatedAt = now\<rparr>"
  have "save_settings db uid ?doc = Some (db(uid \<mapsto> ?doc))"
    by (simp add: save_settings_def valid_default hooks_default)
  then have "get_settings uid now db = (Inr ?doc, db(uid \<mapsto> ?doc))"
    using assms by (simp add: get_settings_def get_literal_default Let_def)
  moreover have "get_settings uid later (db(uid \<mapsto> ?doc)) = (Inr ?doc, db(uid \<mapsto> ?doc))" for later
    by (simp add: get_settings_def)
  moreover have "sensitivity (monitoring getDefaultSettings) = ''medium''"
    "reminderInterval (notifications getDefaultSettings) = 30"
    by (simp_all add: getDefaultSettings_def)
  ultimately show ?thesis by (intro exI[of _ ?doc]) simp
qed

theorem settings_lazy_default_witness:
  "get_settings 1 5000 Map.empty =
     (Inr \<lparr>s_bundle = getDefaultSettings, createdAt = 5000, updatedAt = 5000\<rparr>,
      [1 \<mapsto> \<lparr>s_bundle = getDefaultSettings, createdAt = 5000, updatedAt = 5000\<rparr>]) \<and>
   get_settings 1 6000
     [1 \<mapsto> \<lparr>s_bundle = getDefaultSettings, createdAt = 5000, updatedAt = 5000\<rparr>] =
     (Inr \<lparr>s_bundle = getDefaultSettings, createdAt = 5000, updatedAt = 5000\<rparr>,
      [1 \<mapsto> \<lparr>s_bundle = getDefaultSettings, createdAt = 5000, updatedAt = 5000\<rparr>])"
proof -
  obtain doc where d: "get_settings 1 5000 Map.empty = (Inr doc, [1 \<mapsto> doc])"
    "s_bundle doc = getDefaultSettings"
    "\<forall>later. get_settings 1 later [1 \<mapsto> doc] = (Inr doc, [1 \<mapsto> doc])"
    using settings_lazy_default[of Map.empty 1 5000] by auto
  have "doc = \<lparr>s_bundle = getDefaultSettings, createdAt = 5000, updatedAt = 5000\<rparr>"
    using d(1,2) by (auto simp: get_settings_def Let_def split: option.splits)
  then show ?thesis using d by simp
qed

text \<open>Whatever \<^verbatim>\<open>save()\<close> writes satisfies both invariants; so do the documents
  written by \<^verbatim>\<open>GET /\<close>, by \<^verbatim>\<open>PUT /\<close> and, from a document that satisfied them, by
  \<^verbatim>\<open>PUT /notifications\<close>.\<close>

lemma save_settings_invariant:
  "save_settings db uid doc = Some db' \<Longrightarrow>
     settings_invariant (s_bundle doc) \<and> db' = db(uid \<mapsto> doc)"
  by (auto simp: save_settings_def settings_invariant_def pre_save_workingHours_def
      pre_save_quietHours_def split: if_splits)

lemma get_settings_invariant:
  "db uid = None \<Longrightarrow> get_settings uid now db = (Inr doc, db') \<Longrightarrow>
     settings_invariant (s_bundle doc) \<and> db' = db(uid \<mapsto> doc)"
  using save_settings_invariant
  by (fastforce simp: get_settings_def Let_def split: option.splits)

lemma put_settings_invariant:
  assumes "put_settings V C M uid now db b = (Inr doc, db')"
  shows "settings_invariant (s_bundle doc) \<and> db' = db(uid \<mapsto> doc)"
proof -
  from assms have "save_settings db uid doc = Some db'"
    by (auto simp: put_settings_def Let_def split: option.splits)
  then show ?thesis using save_settings_invariant[of db uid doc db'] by simp
qed

lemma put_notifications_invariant:
  assumes "case db uid of None \<Rightarrow> True | Some old \<Rightarrow> settings_invariant (s_bundle old)"
    and "put_notifications uid now db b = (r, db')"
  shows "case db' uid of None \<Rightarrow> True | Some doc \<Rightarrow> settings_invariant (s_bundle doc)"
  using assms
  by (auto simp: put_notifications_def upsert_group_def Let_def settings_invariant_def
      notifications_of_body_def schema_defaults_def split: option.splits if_splits)

text \<open>
  C8. After every operation that persists a settings document, enabled working hours
  come with at least one weekday and enabled quiet hours with different start and end
  times, and a write that would break this is rejected. The endpoints that go through
  \<^verbatim>\<open>save()\<close> keep this (the lemmas above). \<^verbatim>\<open>PUT /api/settings/monitoring\<close> does
  not: it writes with \<^verbatim>\<open>findOneAndUpdate\<close>, which runs neither hook. The body
  \<^verbatim>\<open>{workingHours: {enabled: true, days: []}}\<close> passes the Joi check, is answered 200 and
  is stored as sent, although the working-hours hook rejects that very document.
\<close>

theorem put_monitoring_breaks_invariant:
  "put_monitoring 1 5000 Map.empty demo_monitoring_body =
     (Inr (monitoring (s_bundle demo_monitoring_doc)), [1 \<mapsto> demo_monitoring_doc]) \<and>
   wh_enabled (workingHours (monitoring (s_bundle demo_monitoring_doc))) \<and>
   days (workingHours (monitoring (s_bundle demo_monitoring_doc))) = [] \<and>
   \<not> settings_invariant (s_bundle demo_monitoring_doc) \<and>
   pre_save_workingHours (s_bundle demo_monitoring_doc) =
     Some ''At least one working day must be selected''"
  by (simp add: put_monitoring_def validate_monitoring_def validate_working_hours_def
      demo_monitoring_body_def upsert_group_def monitoring_of_body_def working_hours_of_body_def
      or_default_def demo_monitoring_doc_def schema_defaults_def settings_invariant_def
      pre_save_workingHours_def Let_def)

subsection \<open>Isolation between accounts\<close>

lemma upsert_group_other:
  "other \<noteq> uid \<Longrightarrow> snd (upsert_group uid now db f) other = db other"
  "other \<noteq> uid \<Longrightarrow> fst (upsert_group uid now (db(other := x)) f) = fst (upsert_group uid now db f)"
  by (simp_all add: upsert_group_def Let_def)

lemma settings_endpoint_other:
  assumes "other \<noteq> uid"
  shows "snd (settings_endpoint V C M uid now db req) other = db other"
    and "fst (settings_endpoint V C M uid now (db(other := x)) req) =
         fst (settings_endpoint V C M uid now db req)"
proof -
  show "snd (settings_endpoint V C M uid now db req) other = db other"
    using assms
    by (cases req)
      (auto simp: answer_as_def get_settings_def put_settings_def put_notifications_def
        put_monitoring_def put_goals_def reset_settings_def export_settings_def Let_def
        save_settings_def upsert_group_def
        split: option.splits sum.splits prod.splits if_splits)
  show "fst (settings_endpoint V C M uid now (db(other := x)) req) =
         fst (settings_endpoint V C M uid now db req)"
    using assms
    by (cases req)
      (auto simp: answer_as_def get_settings_def put_settings_def put_notifications_def
        put_monitoring_def put_goals_def reset_settings_def export_settings_def Let_def
        save_settings_def upsert_group_def
        split: option.splits sum.splits prod.splits if_splits)
qed

text \<open>
  C7. Account \<open>a\<close> is authenticated; the measurement \<open>oid\<close> belongs to another account
  \<open>b\<close>; no measurement has the id \<open>missing\<close>. Then \<^verbatim>\<open>PUT\<close> and \<^verbatim>\<open>DELETE\<close> on
  \<^verbatim>\<open>/api/posture/logs/oid\<close> and \<^verbatim>\<open>POST /api/video/alert/dismiss\<close> for \<open>oid\<close> answer,
  for every body, exactly as they do for \<open>missing\<close>, leave the collection untouched,
  and, when the body passes validation, answer 404 with the one not-found message. The
  settings endpoints take no record id: each addresses the document of the caller, so for
  every request of \<open>a\<close> the settings document of \<open>b\<close> is left as it is and the
  answer to \<open>a\<close> does not depend on it.
\<close>

theorem cross_account_isolation:
  assumes "a \<noteq> b" and "logs oid = Some l" and "userId l = b" and "logs missing = None"
  shows
    "put_log a oid logs body = put_log a missing logs body \<and>
     snd (put_log a oid logs body) = logs \<and>
     (validate_posture_body body = None \<and> update_validators body \<longrightarrow>
        put_log a oid logs body = (Inl log_not_found, logs)) \<and>
     delete_log a oid logs = (Inl log_not_found, logs) \<and>
     delete_log a missing logs = (Inl log_not_found, logs) \<and>
     alert_dismiss a now1 now2 logs \<lparr>logId = Some oid, response = r\<rparr> =
       alert_dismiss a now1 now2 logs \<lparr>logId = Some missing, response = r\<rparr> \<and>
     snd (alert_dismiss a now1 now2 logs \<lparr>logId = Some oid, response = r\<rparr>) = logs \<and>
     (\<forall>v. r = Some v \<and> v \<in> set user_responses \<longrightarrow>
        alert_dismiss a now1 now2 logs \<lparr>logId = Some oid, response = r\<rparr> =
          (Inl log_not_found, logs)) \<and>
     status log_not_found = 404 \<and>
     (\<forall>req x. snd (settings_endpoint V C M a now sdb req) b = sdb b \<and>
        fst (settings_endpoint V C M a now (sdb(b := x)) req) =
        fst (settings_endpoint V C M a now sdb req))"
proof -
  have f: "find_owned logs oid a = None" "find_owned logs missing a = None"
    using assms by (simp_all add: find_owned_def)
  have put: "put_log a oid logs body = put_log a missing logs body"
    "snd (put_log a oid logs body) = logs"
    "validate_posture_body body = None \<and> update_validators body \<longrightarrow>
        put_log a oid logs body = (Inl log_not_found, logs)"
    using f by (auto simp: put_log_def split: option.splits)
  have del: "delete_log a oid logs = (Inl log_not_found, logs)"
    "delete_log a missing logs = (Inl log_not_found, logs)"
    using f by (simp_all add: delete_log_def)
  have dis: "alert_dismiss a now1 now2 logs \<lparr>logId = Some oid, response = r\<rparr> =
       alert_dismiss a now1 now2 logs \<lparr>logId = Some missing, response = r\<rparr>"
    "snd (alert_dismiss a now1 now2 logs \<lparr>logId = Some oid, response = r\<rparr>) = logs"
    "\<forall>v. r = Some v \<and> v \<in> set user_responses \<longrightarrow>
        alert_dismiss a now1 now2 logs \<lparr>logId = Some oid, response = r\<rparr> =
          (Inl log_not_found, logs)"
    using f by (auto simp: alert_dismiss_def falsy_string_def user_responses_def)
  have st: "status log_not_found = 404" by (simp add: log_not_found_def)
  have se: "\<forall>req x. snd (settings_endpoint V C M a now sdb req) b = sdb b \<and>
        fst (settings_endpoint V C M a now (sdb(b := x)) req) =
        fst (settings_endpoint V C M a now sdb req)"
    using settings_endpoint_other[of b a V C M now sdb] assms(1) by auto
  show ?thesis using put del dis st se by blast
qed


theorem cross_account_isolation_witness:
  "put_log 8 1 [1 \<mapsto> demo_log] demo_put_body = (Inl log_not_found, [1 \<mapsto> demo_log]) \<and>
   put_log 8 2 [1 \<mapsto> demo_log] demo_put_body = (Inl log_not_found, [1 \<mapsto> demo_log]) \<and>
   delete_log 8 1 [1 \<mapsto> demo_log] = (Inl log_not_found, [1 \<mapsto> demo_log]) \<and>
   alert_dismiss 8 5000 5000 [1 \<mapsto> demo_log] \<lparr>logId = Some 1, response = Some ''dismissed''\<rparr> =
     (Inl log_not_found, [1 \<mapsto> demo_log]) \<and>
   snd (settings_endpoint (\<lambda>u::unit. None) (\<lambda>u. schema_defaults) (\<lambda>u s. s) 8 5000
          [7 \<mapsto> demo_settings_doc] (PutMonitoring demo_monitoring_body)) 7 =
     Some demo_settings_doc \<and>
   snd (settings_endpoint (\<lambda>u::unit. None) (\<lambda>u. schema_defaults) (\<lambda>u s. s) 8 5000
          [7 \<mapsto> demo_settings_doc] ResetSettings) 7 =
     Some demo_settings_doc"
proof -
  have h: "(8::nat) \<noteq> 7" "[1 \<mapsto> demo_log] (1::nat) = Some demo_log" "userId demo_log = 7"
    "[(1::nat) \<mapsto> demo_log] 2 = None"
    by (simp_all add: demo_log_def)
  have v: "validate_posture_body demo_put_body = None" "update_validators demo_put_body"
    "''dismissed'' \<in> set user_responses"
    by (simp_all add: validate_posture_body_def update_validators_def demo_put_body_def
        in_range_def max_length_def posture_types_def user_responses_def)
  note c = cross_account_isolation[OF h, of demo_put_body 5000 5000 "Some ''dismissed''"
        "\<lambda>u::unit. None" "\<lambda>u. schema_defaults" "\<lambda>u s. s" 5000 "[7 \<mapsto> demo_settings_doc]"]
  have p: "put_log 8 1 [1 \<mapsto> demo_log] demo_put_body = (Inl log_not_found, [1 \<mapsto> demo_log])"
    "put_log 8 2 [1 \<mapsto> demo_log] demo_put_body = (Inl log_not_found, [1 \<mapsto> demo_log])"
    using c v by metis+
  have d: "delete_log 8 1 [1 \<mapsto> demo_log] = (Inl log_not_found, [1 \<mapsto> demo_log])"
    using c by blast
  have a: "alert_dismiss 8 5000 5000 [1 \<mapsto> demo_log]
      \<lparr>logId = Some 1, response = Some ''dismissed''\<rparr> = (Inl log_not_found, [1 \<mapsto> demo_log])"
    using c v by blast
  have s: "snd (settings_endpoint (\<lambda>u::unit. None) (\<lambda>u. schema_defaults) (\<lambda>u s. s) 8 5000
          [7 \<mapsto> demo_settings_doc] req) 7 = Some demo_settings_doc" for req
    using c by simp
  show ?thesis using p d a s by blast
qed

end
